theory Spec2Isabelle
  imports Complex_Main "HOL-Library.Word" "HOL-Library.Monad_Syntax" "HOL-Library.Sublist"
begin


section \<open>JavaScript strings\<close>

text \<open>
  A JavaScript string is a sequence of UTF-16 code units. A code unit is modelled by its
  number; ASCII literals of the source are written \<open>js ''...''\<close>.
\<close>

type_synonym jsstring = "nat list"

definition js :: "string \<Rightarrow> jsstring" where
  "js s = map of_char s"

text \<open>\<^verbatim>\<open>s.split(sep)\<close> for a one-character separator: the empty string splits into one
  empty piece, and a trailing separator leaves a trailing empty piece.\<close>

fun split_on :: "nat \<Rightarrow> jsstring \<Rightarrow> jsstring list" where
  "split_on sep [] = [[]]"
| "split_on sep (c # cs) =
     (if c = sep then [] # split_on sep cs
      else (case split_on sep cs of
              w # ws \<Rightarrow> (c # w) # ws
            | [] \<Rightarrow> [[c]]))"

text \<open>\<^verbatim>\<open>parts.join(sep)\<close>.\<close>

fun join :: "jsstring \<Rightarrow> jsstring list \<Rightarrow> jsstring" where
  "join sep [] = []"
| "join sep [x] = x"
| "join sep (x # y # ys) = x @ sep @ join sep (y # ys)"

text \<open>\<^verbatim>\<open>s.startsWith(p)\<close>.\<close>

definition startsWith :: "jsstring \<Rightarrow> jsstring \<Rightarrow> bool" where
  "startsWith s p = (take (length p) s = p)"

text \<open>\<^verbatim>\<open>s.substring(0, s.lastIndexOf(c))\<close> takes \<open>last_index_of c s\<close> code units:
  the index of the last occurrence, and none (\<^verbatim>\<open>substring(0, -1)\<close>) without one.\<close>

definition last_index_of :: "nat \<Rightarrow> jsstring \<Rightarrow> nat" where
  "last_index_of c s =
     (if c \<in> set s then length s - Suc (length (takeWhile (\<lambda>x. x \<noteq> c) (rev s))) else 0)"

section \<open>Image path resolution (import-helpers.ts)\<close>

text \<open>\<^verbatim>\<open>relative.replace(/^\.\//, "")\<close>: one leading \<^verbatim>\<open>./\<close> is removed.\<close>

definition strip_dot_slash :: "jsstring \<Rightarrow> jsstring" where
  "strip_dot_slash relative =
     (if startsWith relative (js ''./'') then drop 2 relative else relative)"

text \<open>The \<^verbatim>\<open>for (const segment of cleaned.split("/"))\<close> loop of
  \<^verbatim>\<open>resolveRelativePath\<close>, with the array \<^verbatim>\<open>parts\<close> as its state.
  \<^verbatim>\<open>parts.pop()\<close> on an empty array leaves it empty.\<close>

fun resolve_segments :: "jsstring list \<Rightarrow> jsstring list \<Rightarrow> jsstring list" where
  "resolve_segments parts [] = parts"
| "resolve_segments parts (segment # rest) =
     (if segment = js ''..'' then resolve_segments (butlast parts) rest
      else if segment \<noteq> js ''.'' then resolve_segments (parts @ [segment]) rest
      else resolve_segments parts rest)"

definition resolveRelativePath :: "jsstring \<Rightarrow> jsstring \<Rightarrow> jsstring" where
  "resolveRelativePath base relative =
     (let cleaned = strip_dot_slash relative in
      if base = [] then cleaned
      else join (js ''/'') (resolve_segments (split_on 47 base) (split_on 47 cleaned)))"

text \<open>The resolution rule as the specification words it: each segment of the reference
  acts on the list of base segments.\<close>

definition spec_segment_step :: "jsstring list \<Rightarrow> jsstring \<Rightarrow> jsstring list" where
  "spec_segment_step parts seg =
     (if seg = js ''..'' then butlast parts
      else if seg = js ''.'' then parts
      else parts @ [seg])"

definition spec_resolve :: "jsstring \<Rightarrow> jsstring \<Rightarrow> jsstring" where
  "spec_resolve base reference =
     (let r = strip_dot_slash reference in
      if base = [] then r
      else join (js ''/'') (foldl spec_segment_step (split_on 47 base) (split_on 47 r)))"

section \<open>JavaScript values\<close>

text \<open>
  A number is an IEEE double: a finite value (every double is a rational), an infinity
  or NaN.
\<close>

datatype jsnum = Finite rat | PosInfinity | NegInfinity | NaN

text \<open>
  The values that front matter and JSON carry. A \<^verbatim>\<open>Date\<close> holds a time value in
  milliseconds, or none when it is an invalid date.
\<close>

datatype jsval =
    JUndefined
  | JNull
  | JBool bool
  | JNum jsnum
  | JStr jsstring
  | JDate "int option"
  | JArr "jsval list"
  | JObj "(jsstring \<times> jsval) list"

text \<open>A thrown value: an \<^verbatim>\<open>Error\<close> with its message, or anything else with its
  \<^verbatim>\<open>String(...)\<close> rendering.\<close>

datatype js_error = Error jsstring | Thrown jsstring

text \<open>\<^verbatim>\<open>error instanceof Error ? error.message : String(error)\<close>\<close>

fun error_reason :: "js_error \<Rightarrow> jsstring" where
  "error_reason (Error m) = m"
| "error_reason (Thrown s) = s"

text \<open>A \<^verbatim>\<open>Record<string, unknown>\<close> read by property access: a missing property reads
  as \<^verbatim>\<open>undefined\<close>.\<close>

type_synonym jsrecord = "jsstring \<rightharpoonup> jsval"

definition field :: "jsrecord \<Rightarrow> string \<Rightarrow> jsval" where
  "field data k = (case data (js k) of None \<Rightarrow> JUndefined | Some v \<Rightarrow> v)"

text \<open>\<^verbatim>\<open>a ?? b\<close>: the right operand replaces \<^verbatim>\<open>null\<close> and \<^verbatim>\<open>undefined\<close> only.\<close>

fun nullish :: "jsval \<Rightarrow> jsval \<Rightarrow> jsval" where
  "nullish JUndefined b = b"
| "nullish JNull b = b"
| "nullish a b = a"

text \<open>Truthiness, as \<^verbatim>\<open>if (v)\<close> tests it.\<close>

fun truthy :: "jsval \<Rightarrow> bool" where
  "truthy JUndefined = False"
| "truthy JNull = False"
| "truthy (JBool b) = b"
| "truthy (JNum n) = (n \<noteq> NaN \<and> n \<noteq> Finite 0)"
| "truthy (JStr s) = (s \<noteq> [])"
| "truthy (JDate d) = True"
| "truthy (JArr xs) = True"
| "truthy (JObj kvs) = True"

section \<open>Archive readers (zip.ts)\<close>

text \<open>
  An opened archive is the plain object that \<^verbatim>\<open>unzipSync\<close> returns, a
  \<^verbatim>\<open>Record<string, Uint8Array>\<close>. Its own properties are the entries: the paths in key
  order, each with its bytes.
\<close>

type_synonym bytes = "8 word list"
type_synonym zipfiles = "(jsstring \<times> bytes) list"

text \<open>
  Like every plain object the archive inherits the members of \<^verbatim>\<open>Object.prototype\<close>.
  Of an inherited member the code reads only the property \<^verbatim>\<open>length\<close>: the number of
  parameters of a function, and nothing (\<^verbatim>\<open>undefined\<close>) for the prototype object that
  \<^verbatim>\<open>__proto__\<close> yields.
\<close>

definition object_prototype :: "(jsstring \<times> nat option) list" where
  "object_prototype =
     [(js ''constructor'', Some 1),
      (js ''__defineGetter__'', Some 2),
      (js ''__defineSetter__'', Some 2),
      (js ''hasOwnProperty'', Some 1),
      (js ''__lookupGetter__'', Some 1),
      (js ''__lookupSetter__'', Some 1),
      (js ''isPrototypeOf'', Some 1),
      (js ''propertyIsEnumerable'', Some 1),
      (js ''toString'', Some 0),
      (js ''valueOf'', Some 0),
      (js ''__proto__'', None),
      (js ''toLocaleString'', Some 0)]"

text \<open>
  \<^verbatim>\<open>files[path]\<close> looks through the prototype chain: it is the bytes of the entry with
  that path, else the inherited member with that name, else \<^verbatim>\<open>undefined\<close>.
  \<^verbatim>\<open>path in files\<close> holds exactly when it finds one of the two.
\<close>

datatype property = Payload bytes | Member "nat option"

definition get_property :: "zipfiles \<Rightarrow> jsstring \<Rightarrow> property option" where
  "get_property files path =
     (case map_of files path of
        Some b \<Rightarrow> Some (Payload b)
      | None \<Rightarrow> map_option Member (map_of object_prototype path))"

definition has_property :: "zipfiles \<Rightarrow> jsstring \<Rightarrow> bool" where
  "has_property files path = (get_property files path \<noteq> None)"

text \<open>\<^verbatim>\<open>imageData.length\<close>\<close>

fun property_length :: "property \<Rightarrow> nat option" where
  "property_length (Payload b) = Some (length b)"
| "property_length (Member n) = n"

text \<open>
  \<^verbatim>\<open>strFromU8\<close> (the archive library's decoder) and \<^verbatim>\<open>JSON.parse\<close> are parameters
  of the readers. The decoder is handed whatever \<^verbatim>\<open>files[path]\<close> is, and what it
  throws leaves \<^verbatim>\<open>readTextFile\<close>.
\<close>

definition readTextFile ::
  "(property \<Rightarrow> js_error + jsstring) \<Rightarrow> zipfiles \<Rightarrow> jsstring \<Rightarrow> js_error + jsstring option" where
  "readTextFile strFromU8 files path =
     (if \<not> has_property files path then Inr None
      else (case strFromU8 (the (get_property files path)) of
              Inl e \<Rightarrow> Inl e
            | Inr s \<Rightarrow> Inr (Some s)))"

text \<open>\<^verbatim>\<open>!text\<close> holds for \<^verbatim>\<open>null\<close> and for the empty string.\<close>

definition no_text :: "jsstring option \<Rightarrow> bool" where
  "no_text text = (case text of None \<Rightarrow> True | Some s \<Rightarrow> s = [])"

text \<open>One \<^verbatim>\<open>console.error\<close> line of \<^verbatim>\<open>readValidatedJsonFile\<close>: the path and the
  schema's issues.\<close>

datatype 'i log_entry = ValidationFailed jsstring 'i

text \<open>
  \<^verbatim>\<open>readValidatedJsonFile\<close> returns the parsed data or \<^verbatim>\<open>null\<close>, and what it logged.
  The schema's \<^verbatim>\<open>safeParse\<close> is a parameter: issues or data. The call of
  \<^verbatim>\<open>readTextFile\<close> is outside the \<^verbatim>\<open>try\<close>: what it throws leaves the reader.
\<close>

definition readValidatedJsonFile ::
  "(property \<Rightarrow> js_error + jsstring) \<Rightarrow> (jsstring \<Rightarrow> js_error + jsval) \<Rightarrow> (jsval \<Rightarrow> 'i + 'a) \<Rightarrow>
   zipfiles \<Rightarrow> jsstring \<Rightarrow> (js_error + 'a option) \<times> 'i log_entry list" where
  "readValidatedJsonFile strFromU8 json_parse safeParse files path =
     (case readTextFile strFromU8 files path of
        Inl e \<Rightarrow> (Inl e, [])
      | Inr text \<Rightarrow>
          if no_text text then (Inr None, [])
          else (case json_parse (the text) of
                  Inl e \<Rightarrow> (Inr None, [])
                | Inr json \<Rightarrow>
                    (case safeParse json of
                       Inl issues \<Rightarrow> (Inr None, [ValidationFailed path issues])
                     | Inr data \<Rightarrow> (Inr (Some data), []))))"

definition readJsonFile ::
  "(property \<Rightarrow> js_error + jsstring) \<Rightarrow> (jsstring \<Rightarrow> js_error + jsval) \<Rightarrow> zipfiles \<Rightarrow> jsstring \<Rightarrow>
   js_error + jsval option" where
  "readJsonFile strFromU8 json_parse files path =
     (case readTextFile strFromU8 files path of
        Inl e \<Rightarrow> Inl e
      | Inr text \<Rightarrow>
          if no_text text then Inr None
          else (case json_parse (the text) of
                  Inl e \<Rightarrow> Inr None
                | Inr json \<Rightarrow> Inr (Some json)))"

text \<open>\<^verbatim>\<open>Object.keys(files).filter((p) => p.startsWith(prefix))\<close>\<close>

definition listFiles :: "zipfiles \<Rightarrow> jsstring \<Rightarrow> jsstring list" where
  "listFiles files pfx = filter (\<lambda>p. startsWith p pfx) (map fst files)"

text \<open>The loop of \<^verbatim>\<open>listDirectories\<close>; the \<^verbatim>\<open>Set\<close> keeps first-insertion order.\<close>

fun listDirectories_loop :: "jsstring \<Rightarrow> jsstring list \<Rightarrow> jsstring list \<Rightarrow> jsstring list" where
  "listDirectories_loop pfx dirs [] = dirs"
| "listDirectories_loop pfx dirs (path # paths) =
     (if startsWith path pfx then
        (let rest = drop (length pfx) path;
             dirName = hd (split_on 47 rest)
         in if dirName \<noteq> [] \<and> dirName \<notin> set dirs
            then listDirectories_loop pfx (dirs @ [dirName]) paths
            else listDirectories_loop pfx dirs paths)
      else listDirectories_loop pfx dirs paths)"

definition listDirectories :: "zipfiles \<Rightarrow> jsstring \<Rightarrow> jsstring list" where
  "listDirectories files pfx = listDirectories_loop pfx [] (map fst files)"

text \<open>The archive without one path: the same archive with that file missing.\<close>

definition without_path :: "zipfiles \<Rightarrow> jsstring \<Rightarrow> zipfiles" where
  "without_path files path = filter (\<lambda>kv. fst kv \<noteq> path) files"

section \<open>Front matter normalisation (frontmatter.ts, import-export.schema.ts)\<close>

text \<open>
  The platform functions that normalisation calls: \<^verbatim>\<open>new Date(s).getTime()\<close> (none for
  an invalid date), \<^verbatim>\<open>Date.prototype.toISOString\<close> on a valid time value, and the
  number check of the schema library's \<^verbatim>\<open>z.number()\<close>.
\<close>

record platform =
  date_parse :: "jsstring \<Rightarrow> int option"
  date_iso :: "int \<Rightarrow> jsstring"
  z_number_ok :: "jsnum \<Rightarrow> bool"

text \<open>Modelled from the spec: the constant \<^verbatim>\<open>POST_STATUSES\<close> of \<^verbatim>\<open>lib/db/schema\<close> is
  not among the sources; the data model gives \<^verbatim>\<open>status: enum{draft, published}\<close>.\<close>

definition POST_STATUSES :: "jsstring list" where
  "POST_STATUSES = [js ''draft'', js ''published'']"

text \<open>A field declared \<^verbatim>\<open>.optional().nullable()\<close>.\<close>

datatype 'a optnull = Undefined | Null | Value 'a

record PostFrontmatter =
  title :: jsstring
  slug :: jsstring
  summary :: "jsstring optnull"
  status :: jsstring
  publishedAt :: "jsstring optnull"
  createdAt :: "jsstring optnull"
  updatedAt :: "jsstring optnull"
  readTimeInMinutes :: jsnum
  tags :: "jsstring list"

subsection \<open>The schema\<close>

fun z_string :: "jsval \<Rightarrow> jsstring option" where
  "z_string (JStr s) = Some s"
| "z_string v = None"

fun z_enum :: "jsstring list \<Rightarrow> jsval \<Rightarrow> jsstring option" where
  "z_enum vals (JStr s) = (if s \<in> set vals then Some s else None)"
| "z_enum vals v = None"

fun z_number :: "(jsnum \<Rightarrow> bool) \<Rightarrow> jsval \<Rightarrow> jsnum option" where
  "z_number ok (JNum n) = (if ok n then Some n else None)"
| "z_number ok v = None"

fun z_array :: "(jsval \<Rightarrow> 'a option) \<Rightarrow> jsval \<Rightarrow> 'a list option" where
  "z_array p (JArr xs) = those (map p xs)"
| "z_array p v = None"

text \<open>\<^verbatim>\<open>.default(d)\<close>: a missing value becomes the default (each default of the schema
  below is valid for its field).\<close>

definition z_default :: "(jsval \<Rightarrow> 'a option) \<Rightarrow> 'a \<Rightarrow> jsval \<Rightarrow> 'a option" where
  "z_default p d v = (if v = JUndefined then Some d else p v)"

definition z_optional_nullable :: "(jsval \<Rightarrow> 'a option) \<Rightarrow> jsval \<Rightarrow> 'a optnull option" where
  "z_optional_nullable p v =
     (if v = JUndefined then Some Undefined
      else if v = JNull then Some Null
      else map_option Value (p v))"

text \<open>\<^verbatim>\<open>PostFrontmatterSchema.safeParse(mapped)\<close>: the data, or none when an issue is
  found.\<close>

definition PostFrontmatterSchema_safeParse :: "platform \<Rightarrow> jsrecord \<Rightarrow> PostFrontmatter option" where
  "PostFrontmatterSchema_safeParse P mapped = do {
     t \<leftarrow> z_string (field mapped ''title'');
     sl \<leftarrow> z_default z_string [] (field mapped ''slug'');
     su \<leftarrow> z_optional_nullable z_string (field mapped ''summary'');
     st \<leftarrow> z_default (z_enum POST_STATUSES) (js ''published'') (field mapped ''status'');
     pa \<leftarrow> z_optional_nullable z_string (field mapped ''publishedAt'');
     ca \<leftarrow> z_optional_nullable z_string (field mapped ''createdAt'');
     ua \<leftarrow> z_optional_nullable z_string (field mapped ''updatedAt'');
     rt \<leftarrow> z_default (z_number (z_number_ok P)) (Finite 1) (field mapped ''readTimeInMinutes'');
     tg \<leftarrow> z_default (z_array z_string) [] (field mapped ''tags'');
     Some \<lparr> title = t, slug = sl, summary = su, status = st, publishedAt = pa,
            createdAt = ca, updatedAt = ua, readTimeInMinutes = rt, tags = tg \<rparr>
   }"

subsection \<open>normalizeFrontmatter\<close>

text \<open>\<^verbatim>\<open>toISOString(value)\<close> of frontmatter.ts: a \<^verbatim>\<open>Date\<close> is formatted (an invalid one
  makes \<^verbatim>\<open>Date.prototype.toISOString\<close> throw a \<^verbatim>\<open>RangeError\<close>), a string is parsed and
  formatted when it is a date, anything else gives \<^verbatim>\<open>undefined\<close>.\<close>

fun toISOString :: "platform \<Rightarrow> jsval \<Rightarrow> js_error + jsval" where
  "toISOString P (JDate None) = Inl (Error (js ''Invalid time value''))"
| "toISOString P (JDate (Some t)) = Inr (JStr (date_iso P t))"
| "toISOString P (JStr s) =
     (case date_parse P s of
        Some t \<Rightarrow> Inr (JStr (date_iso P t))
      | None \<Rightarrow> Inr JUndefined)"
| "toISOString P v = Inr JUndefined"

text \<open>\<^verbatim>\<open>if (source) { mapped[key] = toISOString(source) }\<close>\<close>

definition set_date :: "platform \<Rightarrow> string \<Rightarrow> jsval \<Rightarrow> jsrecord \<Rightarrow> js_error + jsrecord" where
  "set_date P key source mapped =
     (if truthy source then
        (case toISOString P source of
           Inl e \<Rightarrow> Inl e
         | Inr v \<Rightarrow> Inr (mapped(js key \<mapsto> v)))
      else Inr mapped)"

text \<open>\<^verbatim>\<open>slugSource.split("/").filter(Boolean)\<close>, then the last segment, or the source
  itself when no segment is left.\<close>

definition slug_of_source :: "jsstring \<Rightarrow> jsstring" where
  "slug_of_source slugSource =
     (let segments = filter (\<lambda>seg. seg \<noteq> []) (split_on 47 slugSource)
      in if segments = [] then slugSource else last segments)"

fun is_string :: "jsval \<Rightarrow> bool" where
  "is_string (JStr s) = True"
| "is_string v = False"

definition map_title :: "jsrecord \<Rightarrow> jsrecord \<Rightarrow> jsrecord" where
  "map_title data mapped =
     (if is_string (field data ''title'') then mapped(js ''title'' \<mapsto> field data ''title'')
      else mapped)"

definition map_slug :: "jsrecord \<Rightarrow> jsrecord \<Rightarrow> jsrecord" where
  "map_slug data mapped =
     (case nullish (nullish (field data ''slug'') (field data ''url'')) (field data ''permalink'') of
        JStr slugSource \<Rightarrow> mapped(js ''slug'' \<mapsto> JStr (slug_of_source slugSource))
      | v \<Rightarrow> mapped)"

definition map_summary :: "jsrecord \<Rightarrow> jsrecord \<Rightarrow> jsrecord" where
  "map_summary data mapped =
     (let summarySource =
        nullish (nullish (field data ''summary'') (field data ''description''))
          (field data ''excerpt'')
      in if is_string summarySource then mapped(js ''summary'' \<mapsto> summarySource) else mapped)"

definition map_status :: "jsrecord \<Rightarrow> jsrecord \<Rightarrow> jsrecord" where
  "map_status data mapped =
     (if field data ''draft'' = JBool True then mapped(js ''status'' \<mapsto> JStr (js ''draft''))
      else if is_string (field data ''status'')
      then mapped(js ''status'' \<mapsto> field data ''status'')
      else mapped(js ''status'' \<mapsto> JStr (js ''published'')))"

definition dateSource :: "jsrecord \<Rightarrow> jsval" where
  "dateSource data =
     nullish (nullish (field data ''publishedAt'') (field data ''date''))
       (field data ''published_at'')"

definition createdSource :: "jsrecord \<Rightarrow> jsval" where
  "createdSource data =
     nullish (nullish (field data ''createdAt'') (field data ''created_at''))
       (field data ''date'')"

definition updatedSource :: "jsrecord \<Rightarrow> jsval" where
  "updatedSource data =
     nullish (nullish (nullish (field data ''updatedAt'') (field data ''updated_at''))
       (field data ''lastmod'')) (field data ''modified'')"

fun is_number :: "jsval \<Rightarrow> bool" where
  "is_number (JNum n) = True"
| "is_number v = False"

definition map_readTime :: "jsrecord \<Rightarrow> jsrecord \<Rightarrow> jsrecord" where
  "map_readTime data mapped =
     (if is_number (field data ''readTimeInMinutes'')
      then mapped(js ''readTimeInMinutes'' \<mapsto> field data ''readTimeInMinutes'')
      else mapped)"

definition map_tags :: "jsrecord \<Rightarrow> jsrecord \<Rightarrow> jsrecord" where
  "map_tags data mapped =
     (case nullish (field data ''tags'') (field data ''categories'') of
        JArr tagsSource \<Rightarrow> mapped(js ''tags'' \<mapsto> JArr (filter is_string tagsSource))
      | v \<Rightarrow> mapped)"

text \<open>
  \<^verbatim>\<open>normalizeFrontmatter(data)\<close>: the fields are mapped in the order of the source, then
  validated. The result is the canonical record, \<^verbatim>\<open>null\<close> (none) when validation fails,
  or the exception of a date conversion.
\<close>

definition normalizeFrontmatter :: "platform \<Rightarrow> jsrecord \<Rightarrow> js_error + PostFrontmatter option" where
  "normalizeFrontmatter P data =
     (let mapped = map_status data (map_summary data (map_slug data (map_title data Map.empty)))
      in case set_date P ''publishedAt'' (dateSource data) mapped of
           Inl e \<Rightarrow> Inl e
         | Inr mapped \<Rightarrow>
        (case set_date P ''createdAt'' (createdSource data) mapped of
           Inl e \<Rightarrow> Inl e
         | Inr mapped \<Rightarrow>
        (case set_date P ''updatedAt'' (updatedSource data) mapped of
           Inl e \<Rightarrow> Inl e
         | Inr mapped \<Rightarrow>
             Inr (PostFrontmatterSchema_safeParse P (map_tags data (map_readTime data mapped))))))"

text \<open>The fields of a canonical record, as a record of raw values again.\<close>

fun optnull_val :: "jsstring optnull \<Rightarrow> jsval" where
  "optnull_val Undefined = JUndefined"
| "optnull_val Null = JNull"
| "optnull_val (Value s) = JStr s"

definition frontmatter_fields :: "PostFrontmatter \<Rightarrow> jsrecord" where
  "frontmatter_fields m =
     [js ''title'' \<mapsto> JStr (title m),
      js ''slug'' \<mapsto> JStr (slug m),
      js ''summary'' \<mapsto> optnull_val (summary m),
      js ''status'' \<mapsto> JStr (status m),
      js ''publishedAt'' \<mapsto> optnull_val (publishedAt m),
      js ''createdAt'' \<mapsto> optnull_val (createdAt m),
      js ''updatedAt'' \<mapsto> optnull_val (updatedAt m),
      js ''readTimeInMinutes'' \<mapsto> JNum (readTimeInMinutes m),
      js ''tags'' \<mapsto> JArr (map JStr (tags m))]"

text \<open>When validation of a raw record can succeed: the conditions on its fields.\<close>

definition has_title :: "jsrecord \<Rightarrow> bool" where
  "has_title data = is_string (field data ''title'')"

definition status_valid :: "jsrecord \<Rightarrow> bool" where
  "status_valid data =
     (if field data ''draft'' = JBool True then True
      else (case field data ''status'' of JStr s \<Rightarrow> s \<in> set POST_STATUSES | v \<Rightarrow> True))"

definition readTime_valid :: "platform \<Rightarrow> jsrecord \<Rightarrow> bool" where
  "readTime_valid P data =
     (case field data ''readTimeInMinutes'' of JNum n \<Rightarrow> z_number_ok P n | v \<Rightarrow> True)"

definition dates_convertible :: "jsrecord \<Rightarrow> bool" where
  "dates_convertible data =
     (dateSource data \<noteq> JDate None \<and> createdSource data \<noteq> JDate None \<and>
      updatedSource data \<noteq> JDate None)"

text \<open>A platform for evaluating examples: a time value is written as a sign and a
  magnitude, and every number but NaN is accepted.\<close>

definition example_platform :: platform where
  "example_platform =
     \<lparr> date_parse = (\<lambda>s. case s of [sg, n] \<Rightarrow> Some (if sg = 45 then - int n else int n)
                             | _ \<Rightarrow> None),
       date_iso = (\<lambda>t. [if t < 0 then 45 else 43, nat \<bar>t\<bar>]),
       z_number_ok = (\<lambda>n. n \<noteq> NaN) \<rparr>"

subsection \<open>The canonical record, field by field\<close>

text \<open>The value that a date source contributes to the canonical record.\<close>

definition iso_field :: "platform \<Rightarrow> jsval \<Rightarrow> jsstring optnull" where
  "iso_field P source =
     (if truthy source then
        (case toISOString P source of
           Inr (JStr s) \<Rightarrow> Value s
         | _ \<Rightarrow> Undefined)
      else Undefined)"

fun strings_of :: "jsval list \<Rightarrow> jsstring list" where
  "strings_of [] = []"
| "strings_of (JStr s # vs) = s # strings_of vs"
| "strings_of (v # vs) = strings_of vs"

definition normalized_record :: "platform \<Rightarrow> jsrecord \<Rightarrow> PostFrontmatter" where
  "normalized_record P data =
     \<lparr> title = (case field data ''title'' of JStr s \<Rightarrow> s | v \<Rightarrow> []),
       slug =
         (case nullish (nullish (field data ''slug'') (field data ''url''))
                 (field data ''permalink'') of
            JStr s \<Rightarrow> slug_of_source s
          | v \<Rightarrow> []),
       summary =
         (case nullish (nullish (field data ''summary'') (field data ''description''))
                 (field data ''excerpt'') of
            JStr s \<Rightarrow> Value s
          | v \<Rightarrow> Undefined),
       status =
         (if field data ''draft'' = JBool True then js ''draft''
          else (case field data ''status'' of JStr s \<Rightarrow> s | v \<Rightarrow> js ''published'')),
       publishedAt = iso_field P (dateSource data),
       createdAt = iso_field P (createdSource data),
       updatedAt = iso_field P (updatedSource data),
       readTimeInMinutes = (case field data ''readTimeInMinutes'' of JNum n \<Rightarrow> n | v \<Rightarrow> Finite 1),
       tags =
         (case nullish (field data ''tags'') (field data ''categories'') of
            JArr vs \<Rightarrow> strings_of vs
          | v \<Rightarrow> []) \<rparr>"

text \<open>The mapped record when no date conversion throws.\<close>

definition iso_value :: "platform \<Rightarrow> jsval \<Rightarrow> jsval" where
  "iso_value P source = (case toISOString P source of Inr v \<Rightarrow> v | Inl e \<Rightarrow> JUndefined)"

definition put_date :: "platform \<Rightarrow> string \<Rightarrow> jsval \<Rightarrow> jsrecord \<Rightarrow> jsrecord" where
  "put_date P key source mapped =
     (if truthy source then mapped(js key \<mapsto> iso_value P source) else mapped)"

definition mapped_of :: "platform \<Rightarrow> jsrecord \<Rightarrow> jsrecord" where
  "mapped_of P data =
     map_tags data (map_readTime data
       (put_date P ''updatedAt'' (updatedSource data)
         (put_date P ''createdAt'' (createdSource data)
           (put_date P ''publishedAt'' (dateSource data)
             (map_status data (map_summary data (map_slug data (map_title data Map.empty))))))))"

section \<open>Document tree to markdown (markdown-serializer.ts)\<close>

subsection \<open>String helpers\<close>

text \<open>White space as \<^verbatim>\<open>trim\<close> and \<^verbatim>\<open>trimEnd\<close> see it: the white-space and
  line-terminator code units.\<close>

definition is_ws :: "nat \<Rightarrow> bool" where
  "is_ws c = (c \<in> {9, 10, 11, 12, 13, 32, 160, 5760, 8232, 8233, 8239, 8287, 12288, 65279}
              \<or> (8192 \<le> c \<and> c \<le> 8202))"

definition trimEnd :: "jsstring \<Rightarrow> jsstring" where
  "trimEnd s = rev (dropWhile is_ws (rev s))"

definition trim :: "jsstring \<Rightarrow> jsstring" where
  "trim s = dropWhile is_ws (trimEnd s)"

text \<open>\<^verbatim>\<open>s.replace(/^\n+/, "")\<close>\<close>

definition strip_leading_newlines :: "jsstring \<Rightarrow> jsstring" where
  "strip_leading_newlines s = dropWhile (\<lambda>c. c = 10) s"

text \<open>\<^verbatim>\<open>s.replace(/\n{3,}/g, "\n\n")\<close>: every maximal run of three or more newlines
  becomes two newlines.\<close>

function collapse_newlines :: "jsstring \<Rightarrow> jsstring" where
  "collapse_newlines [] = []"
| "collapse_newlines (c # cs) =
     (if c = 10 then
        (let run = takeWhile (\<lambda>c. c = 10) cs; rest = dropWhile (\<lambda>c. c = 10) cs
         in (if 2 \<le> length run then [10, 10] else 10 # run) @ collapse_newlines rest)
      else c # collapse_newlines cs)"
  by pat_completeness auto
termination
  by (relation "measure length") (auto simp: le_imp_less_Suc length_dropWhile_le)

text \<open>Decimal rendering of an integer, as a template literal renders an integral
  number below \<open>2\<^sup>5\<^sup>3\<close>, the range in which the numbers of the platform are exact.\<close>

fun dec_digits :: "nat \<Rightarrow> jsstring" where
  "dec_digits n = (if n < 10 then [48 + n] else dec_digits (n div 10) @ [48 + n mod 10])"

definition int_to_string :: "int \<Rightarrow> jsstring" where
  "int_to_string i = (if i < 0 then 45 # dec_digits (nat (- i)) else dec_digits (nat i))"

subsection \<open>The document tree\<close>

text \<open>
  A node of the editor's document tree (\<^verbatim>\<open>JSONContent\<close>). Attributes are typed as the
  editor's schema declares them: a heading's level is a natural number, a list's start
  an integer (the numbers of its items, \<^verbatim>\<open>start + i\<close>, are exact below \<open>2\<^sup>5\<^sup>3\<close>),
  language, source, alternative text, link target and highlighted markup are strings; a
  missing or \<^verbatim>\<open>null\<close> attribute is none.
\<close>

record attrs =
  attr_level :: "nat option"
  attr_language :: "jsstring option"
  attr_src :: "jsstring option"
  attr_alt :: "jsstring option"
  attr_start :: "int option"
  attr_href :: "jsstring option"
  attr_highlightedHtml :: "jsstring option"

datatype mark = Mark (mark_type: jsstring) (mark_attrs: "attrs option")

datatype JSONContent =
  Node (ntype: "jsstring option") (node_attrs: "attrs option")
       (content: "JSONContent list option") (marks: "mark list option")
       (text_of: "jsstring option")

text \<open>\<^verbatim>\<open>node.content ?? []\<close>\<close>

definition kids :: "JSONContent \<Rightarrow> JSONContent list" where
  "kids node = (case content node of None \<Rightarrow> [] | Some ns \<Rightarrow> ns)"

text \<open>\<^verbatim>\<open>node.attrs?.a\<close>\<close>

definition attr :: "(attrs \<Rightarrow> 'a option) \<Rightarrow> attrs option \<Rightarrow> 'a option" where
  "attr sel a = (case a of None \<Rightarrow> None | Some r \<Rightarrow> sel r)"

text \<open>\<^verbatim>\<open>v ?? d\<close> on an optional value.\<close>

definition or_else :: "'a option \<Rightarrow> 'a \<Rightarrow> 'a" where
  "or_else v d = (case v of None \<Rightarrow> d | Some x \<Rightarrow> x)"

text \<open>The option \<^verbatim>\<open>rewriteImageSrc\<close>.\<close>

type_synonym options = "(jsstring \<Rightarrow> jsstring) option"

definition finalSrc :: "options \<Rightarrow> jsstring \<Rightarrow> jsstring" where
  "finalSrc opts s = (case opts of None \<Rightarrow> s | Some rewriteImageSrc \<Rightarrow> rewriteImageSrc s)"

subsection \<open>Inline content\<close>

definition applyMark :: "mark \<Rightarrow> jsstring \<Rightarrow> jsstring" where
  "applyMark mark text =
     (if mark_type mark = js ''bold'' then js ''**'' @ text @ js ''**''
      else if mark_type mark = js ''italic'' then js ''_'' @ text @ js ''_''
      else if mark_type mark = js ''strike'' then js ''~~'' @ text @ js ''~~''
      else if mark_type mark = js ''code'' then js ''`'' @ text @ js ''`''
      else if mark_type mark = js ''underline'' then js ''<u>'' @ text @ js ''</u>''
      else if mark_type mark = js ''link''
      then js ''['' @ text @ js '']('' @ or_else (attr attr_href (mark_attrs mark)) [] @ js '')''
      else text)"

text \<open>\<^verbatim>\<open>for (const mark of node.marks ?? []) text = applyMark(mark, text)\<close>\<close>

definition applyMarks :: "mark list \<Rightarrow> jsstring \<Rightarrow> jsstring" where
  "applyMarks ms text = foldl (\<lambda>t m. applyMark m t) text ms"

definition serializeInlineNode :: "options \<Rightarrow> JSONContent \<Rightarrow> jsstring" where
  "serializeInlineNode opts node =
     (if ntype node = Some (js ''text'')
      then applyMarks (or_else (marks node) []) (or_else (text_of node) [])
      else if ntype node = Some (js ''image'')
      then js ''!['' @ or_else (attr attr_alt (node_attrs node)) [] @ js '']('' @
           finalSrc opts (or_else (attr attr_src (node_attrs node)) []) @ js '')''
      else if ntype node = Some (js ''hardBreak'') then [32, 32, 10]
      else [])"

definition serializeInline :: "options \<Rightarrow> JSONContent list option \<Rightarrow> jsstring" where
  "serializeInline opts nodes =
     (case nodes of None \<Rightarrow> [] | Some ns \<Rightarrow> concat (map (serializeInlineNode opts) ns))"

subsection \<open>Tables\<close>

text \<open>\<^verbatim>\<open>cell.content?.[0]?.content\<close>\<close>

definition first_child_content :: "JSONContent \<Rightarrow> JSONContent list option" where
  "first_child_content cell =
     (case content cell of
        None \<Rightarrow> None
      | Some [] \<Rightarrow> None
      | Some (c # cs) \<Rightarrow> content c)"

definition serializeCells :: "options \<Rightarrow> JSONContent \<Rightarrow> jsstring list" where
  "serializeCells opts row =
     map (\<lambda>cell. trim (serializeInline opts (first_child_content cell))) (kids row)"

text \<open>\<^verbatim>\<open>`| ${cells.join(" | ")} |`\<close>\<close>

definition row_line :: "jsstring list \<Rightarrow> jsstring" where
  "row_line cells = js ''| '' @ join (js '' | '') cells @ js '' |''"

definition serializeTable :: "options \<Rightarrow> JSONContent \<Rightarrow> jsstring" where
  "serializeTable opts table =
     (let rows = kids table in
      if rows = [] then []
      else
        (let serializedRows = map (serializeCells opts) rows;
             colCount = length (hd serializedRows)
         in if colCount = 0 then []
            else join [10]
                   (row_line (hd serializedRows)
                    # row_line (replicate colCount (js ''---''))
                    # map row_line (tl serializedRows))))"

subsection \<open>Block nodes\<close>

text \<open>A child node is smaller than its parent: the recursion of the serializer ends.\<close>

lemma size_kids: "x \<in> set (kids n) \<Longrightarrow> size x < size n"
proof (cases n)
  case (Node t a c m tx)
  assume "x \<in> set (kids n)"
  with Node obtain ns where ns: "c = Some ns" "x \<in> set ns"
    by (auto simp: kids_def split: option.splits)
  then have "size x \<le> size_list size ns"
    by (simp add: size_list_estimation')
  with Node ns show ?thesis by simp
qed

text \<open>
  \<^verbatim>\<open>serializeNode\<close> and \<^verbatim>\<open>serializeListItem\<close>. The \<^verbatim>\<open>switch\<close> on the node type is
  an if-chain in the order of its cases; \<^verbatim>\<open>"#".repeat(level)\<close> is \<^verbatim>\<open>level\<close> code units 35.
\<close>

function serializeNode :: "options \<Rightarrow> nat \<Rightarrow> JSONContent \<Rightarrow> jsstring"
  and serializeListItem :: "options \<Rightarrow> jsstring \<Rightarrow> nat \<Rightarrow> nat \<Rightarrow> JSONContent \<Rightarrow> jsstring" where
  "serializeNode opts listDepth node =
     (if ntype node = Some (js ''paragraph'')
      then [10] @ serializeInline opts (content node) @ [10]
      else if ntype node = Some (js ''heading'')
      then (let level = or_else (attr attr_level (node_attrs node)) 1;
                hashes = replicate level 35
            in [10] @ hashes @ [32] @ serializeInline opts (content node) @ [10])
      else if ntype node = Some (js ''codeBlock'')
      then (let lang = or_else (attr attr_language (node_attrs node)) [];
                code = (case content node of
                          None \<Rightarrow> []
                        | Some ns \<Rightarrow> concat (map (\<lambda>n. or_else (text_of n) []) ns))
            in [10] @ js ''```'' @ lang @ [10] @ code @ [10] @ js ''```'' @ [10])
      else if ntype node = Some (js ''blockquote'')
      then (let inner = trim (concat (map (serializeNode opts listDepth) (kids node)));
                quoted = join [10] (map (\<lambda>line. js ''> '' @ line) (split_on 10 inner))
            in [10] @ quoted @ [10])
      else if ntype node = Some (js ''bulletList'')
      then [10] @ concat (map (serializeListItem opts (js ''-'') 0 listDepth) (kids node))
      else if ntype node = Some (js ''orderedList'')
      then (let start = or_else (attr attr_start (node_attrs node)) 1
            in [10] @ concat (map (\<lambda>(i, item).
                 serializeListItem opts (int_to_string (start + int i) @ js ''.'') 0 listDepth item)
                 (enumerate 0 (kids node))))
      else if ntype node = Some (js ''image'')
      then [10] @ js ''!['' @ or_else (attr attr_alt (node_attrs node)) [] @ js '']('' @
           finalSrc opts (or_else (attr attr_src (node_attrs node)) []) @ js '')'' @ [10]
      else if ntype node = Some (js ''table'')
      then [10] @ serializeTable opts node @ [10]
      else if ntype node = Some (js ''horizontalRule'') then [10] @ js ''---'' @ [10]
      else if ntype node = Some (js ''hardBreak'') then [10]
      else if content node \<noteq> None
      then concat (map (serializeNode opts listDepth) (kids node))
      else serializeInline opts (content node))"
| "serializeListItem opts marker offset depth item =
     (let indent = concat (replicate depth (js ''  ''));
          children = kids item;
          parts = map (\<lambda>child.
            if ntype child = Some (js ''paragraph'') then serializeInline opts (content child)
            else if ntype child = Some (js ''bulletList'')
            then concat (map (serializeListItem opts (js ''-'') 0 (depth + 1)) (kids child))
            else if ntype child = Some (js ''orderedList'')
            then (let start = or_else (attr attr_start (node_attrs child)) 1
                  in concat (map (\<lambda>(i, sub).
                       serializeListItem opts (int_to_string (start + int i) @ js ''.'') 0
                         (depth + 1) sub)
                       (enumerate 0 (kids child))))
            else serializeNode opts depth child) children;
          first = (case parts of [] \<Rightarrow> [] | p # ps \<Rightarrow> p);
          rest = concat (tl parts)
      in indent @ marker @ [32] @ trim first @ [10] @ rest)"
  by pat_completeness auto
termination
  apply (relation "measure (\<lambda>x. case x of Inl (opts, d, n) \<Rightarrow> size n
                                   | Inr (opts, mk, off, d, n) \<Rightarrow> size n)")
  apply (auto simp: size_kids in_set_enumerate_eq)
  apply (metis size_kids less_trans)
  apply (metis size_kids less_trans nth_mem)
  done

declare serializeNode.simps [simp del] serializeListItem.simps [simp del]

text \<open>
  \<^verbatim>\<open>jsonContentToMarkdown(doc, options)\<close>: the top-level nodes are serialized and
  joined, leading newlines are removed, runs of newlines are collapsed, trailing white
  space is removed and one newline is appended.
\<close>

definition jsonContentToMarkdown :: "options \<Rightarrow> JSONContent \<Rightarrow> jsstring" where
  "jsonContentToMarkdown opts doc =
     (if ntype doc = Some (js ''doc'') then
        (case content doc of
           None \<Rightarrow> []
         | Some nodes \<Rightarrow>
             (let lines = concat (map (serializeNode opts 0) nodes)
              in trimEnd (collapse_newlines (strip_leading_newlines lines)) @ [10]))
      else [])"

text \<open>Builders for example trees, as the tests of the serializer write them.\<close>

definition no_attrs :: attrs where
  "no_attrs = \<lparr> attr_level = None, attr_language = None, attr_src = None, attr_alt = None,
                 attr_start = None, attr_href = None, attr_highlightedHtml = None \<rparr>"

definition text_node :: "jsstring \<Rightarrow> mark list \<Rightarrow> JSONContent" where
  "text_node t ms = Node (Some (js ''text'')) None None (Some ms) (Some t)"

definition block_node :: "string \<Rightarrow> JSONContent list \<Rightarrow> JSONContent" where
  "block_node ty ns = Node (Some (js ty)) None (Some ns) None None"

definition heading_node :: "nat \<Rightarrow> JSONContent list \<Rightarrow> JSONContent" where
  "heading_node lv ns =
     Node (Some (js ''heading'')) (Some (no_attrs\<lparr> attr_level := Some lv \<rparr>)) (Some ns) None None"

text \<open>The tree of the converter test: a heading, a bold paragraph and a two-row table.\<close>

definition example_doc :: JSONContent where
  "example_doc = block_node ''doc''
     [heading_node 2 [text_node (js ''Title'') []],
      block_node ''paragraph'' [text_node (js ''text'') [Mark (js ''bold'') None]],
      block_node ''table''
        [block_node ''tableRow''
           [block_node ''tableHeader'' [block_node ''paragraph'' [text_node (js ''Name'') []]],
            block_node ''tableHeader'' [block_node ''paragraph'' [text_node (js ''Age'') []]]],
         block_node ''tableRow''
           [block_node ''tableCell'' [block_node ''paragraph'' [text_node (js ''Alice'') []]],
            block_node ''tableCell'' [block_node ''paragraph'' [text_node (js ''30'') []]]]]]"

text \<open>A tree whose bold text carries italic first and whose table has an empty header row.\<close>

definition degenerate_doc :: JSONContent where
  "degenerate_doc = block_node ''doc''
     [heading_node 2 [text_node (js ''T'') []],
      block_node ''paragraph''
        [text_node (js ''b'') [Mark (js ''italic'') None, Mark (js ''bold'') None]],
      block_node ''table''
        [block_node ''tableRow'' [],
         block_node ''tableRow''
           [block_node ''tableCell'' [block_node ''paragraph'' [text_node (js ''x'') []]]]]]"

section \<open>Importing one post (import-helpers.ts)\<close>

subsection \<open>Messages\<close>

text \<open>The message literals of the source, as code units.\<close>

definition msg_markdown_failed :: jsstring where
  "msg_markdown_failed = js ''Markdown '' @ [36716, 25442, 22833, 36133] @ js '': ''"

definition msg_bad_metadata :: jsstring where
  "msg_bad_metadata =
     [26080, 27861, 35299, 26512, 25991, 31456, 20803, 25968, 25454, 25110, 20803, 25968,
      25454, 19981, 31526, 21512, 35268, 33539]"

definition msg_image_missing :: jsstring where
  "msg_image_missing = [22270, 29255, 26410, 22312] @ js '' ZIP '' @ [20013, 25214, 21040] @ js '': ''"

definition msg_upload_failed :: jsstring where
  "msg_upload_failed = [22270, 29255, 19978, 20256, 22833, 36133] @ js '': ''"

definition msg_no_importable :: jsstring where
  "msg_no_importable =
     js ''ZIP '' @ [20013, 27809, 26377, 25214, 21040, 21487, 23548, 20837, 30340, 25991, 31456]"

definition msg_no_exportable :: jsstring where
  "msg_no_exportable = [27809, 26377, 25214, 21040, 21487, 23548, 20986, 30340, 25991, 31456]"

definition msg_zip_missing :: jsstring where
  "msg_zip_missing = js ''ZIP '' @ [25991, 20214, 26410, 25214, 21040]"

definition msg_unknown :: jsstring where
  "msg_unknown = [26410, 30693, 38169, 35823]"

definition msg_slug_exists :: jsstring where
  "msg_slug_exists =
     js ''] '' @ [24050, 23384, 22312, 30456, 21516] @ js '' slug'' @
     [65292, 36339, 36807, 23548, 20837]"

subsection \<open>Slugs (posts/utils/content.ts, posts.service.ts)\<close>

text \<open>\<^verbatim>\<open>s.replace(/[P]+/g, r)\<close>: every maximal run of code units of a class becomes one
  replacement code unit.\<close>

function squeeze :: "(nat \<Rightarrow> bool) \<Rightarrow> nat \<Rightarrow> jsstring \<Rightarrow> jsstring" where
  "squeeze P r [] = []"
| "squeeze P r (c # cs) =
     (if P c then r # squeeze P r (dropWhile P cs) else c # squeeze P r cs)"
  by pat_completeness auto
termination
  by (relation "measure (\<lambda>(P, r, s). length s)")
     (auto simp: le_imp_less_Suc length_dropWhile_le)

text \<open>The code units that the second replacement of \<^verbatim>\<open>slugify\<close> leaves in place:
  \<^verbatim>\<open>a-z\<close>, \<^verbatim>\<open>0-9\<close>, the hyphen, and U+4E00 to U+9FA5.\<close>

definition slug_char :: "nat \<Rightarrow> bool" where
  "slug_char c = ((97 \<le> c \<and> c \<le> 122) \<or> (48 \<le> c \<and> c \<le> 57) \<or> c = 45 \<or>
                  (19968 \<le> c \<and> c \<le> 40869))"

text \<open>
  \<^verbatim>\<open>slugify(text)\<close>; the argument is none for \<^verbatim>\<open>null\<close> and \<^verbatim>\<open>undefined\<close>.
  \<^verbatim>\<open>String.prototype.toLowerCase\<close> is a parameter.
\<close>

definition slugify :: "(jsstring \<Rightarrow> jsstring) \<Rightarrow> jsstring option \<Rightarrow> jsstring" where
  "slugify toLowerCase text =
     (if no_text text then js ''untitled-log''
      else
        (let s1 = trim (toLowerCase (the text));
             s2 = squeeze (\<lambda>c. is_ws c \<or> c = 95) 45 s1;
             s3 = filter slug_char s2;
             s4 = squeeze (\<lambda>c. c = 45) 45 s3;
             s5 = dropWhile (\<lambda>c. c = 45) s4;
             cleaned = rev (dropWhile (\<lambda>c. c = 45) (rev s5))
         in if cleaned = [] then js ''untitled-log'' else cleaned))"

subsection \<open>Image references in markdown (image-rewriter.ts)\<close>

text \<open>
  One match of \<^verbatim>\<open>/!\[([^\]]*)\]\(([^)]+)\)/\<close> at the start of a string: the alternative
  text, the source and the rest after the match. Each class can only match its maximal
  run.
\<close>

definition match_image :: "jsstring \<Rightarrow> (jsstring \<times> jsstring \<times> jsstring) option" where
  "match_image s =
     (if startsWith s (js ''!['') then
        (let s1 = drop 2 s;
             alt_text = takeWhile (\<lambda>c. c \<noteq> 93) s1;
             s2 = dropWhile (\<lambda>c. c \<noteq> 93) s1
         in if startsWith s2 (js '']('') then
              (let s3 = drop 2 s2;
                   source = takeWhile (\<lambda>c. c \<noteq> 41) s3;
                   s4 = dropWhile (\<lambda>c. c \<noteq> 41) s3
               in if source \<noteq> [] \<and> s4 \<noteq> [] then Some (alt_text, source, tl s4) else None)
            else None)
      else None)"

lemma match_image_shorter:
  "match_image s = Some (a, b, rest) \<Longrightarrow> length rest < length s"
proof -
  assume m: "match_image s = Some (a, b, rest)"
  let ?s2 = "dropWhile (\<lambda>c. c \<noteq> 93) (drop 2 s)"
  let ?s4 = "dropWhile (\<lambda>c. c \<noteq> 41) (drop 2 ?s2)"
  from m have rest: "rest = tl ?s4" and ne: "?s4 \<noteq> []"
    by (auto simp: match_image_def Let_def split: if_splits)
  have "length ?s4 \<le> length (drop 2 ?s2)" by (rule length_dropWhile_le)
  also have "\<dots> \<le> length ?s2" by simp
  also have "\<dots> \<le> length (drop 2 s)" by (rule length_dropWhile_le)
  also have "\<dots> \<le> length s" by simp
  finally have "length ?s4 \<le> length s" .
  moreover have "length (tl ?s4) < length ?s4" using ne by (cases ?s4) auto
  ultimately show ?thesis using rest by simp
qed

text \<open>The matches of the global regular expression, left to right: after a match the
  search goes on behind it.\<close>

function image_matches :: "jsstring \<Rightarrow> (jsstring \<times> jsstring) list" where
  "image_matches [] = []"
| "image_matches (c # cs) =
     (case match_image (c # cs) of
        Some (alt_text, source, rest) \<Rightarrow> (alt_text, source) # image_matches rest
      | None \<Rightarrow> image_matches cs)"
  by pat_completeness auto
termination
  by (relation "measure length") (auto dest: match_image_shorter)

datatype image_kind = Relative | Remote | DataUri

definition extractMarkdownImages :: "jsstring \<Rightarrow> (jsstring \<times> image_kind) list" where
  "extractMarkdownImages markdown =
     map (\<lambda>(alt_text, source).
            if startsWith source (js ''data:'') then (source, DataUri)
            else if startsWith source (js ''http://'') \<or> startsWith source (js ''https://'')
            then (source, Remote)
            else (source, Relative))
         (image_matches markdown)"

text \<open>\<^verbatim>\<open>rewriteMarkdownImagePaths\<close>: a match whose source has a non-empty entry in the map
  is written again with the new source; everything else is copied.\<close>

function rewriteMarkdownImagePaths :: "jsstring \<Rightarrow> (jsstring \<rightharpoonup> jsstring) \<Rightarrow> jsstring" where
  "rewriteMarkdownImagePaths [] rewriteMap = []"
| "rewriteMarkdownImagePaths (c # cs) rewriteMap =
     (case match_image (c # cs) of
        Some (alt_text, source, rest) \<Rightarrow>
          (let fullMatch = take (length (c # cs) - length rest) (c # cs);
               replacement =
                 (case rewriteMap source of
                    Some newSrc \<Rightarrow>
                      if newSrc \<noteq> [] then js ''!['' @ alt_text @ js '']('' @ newSrc @ js '')''
                      else fullMatch
                  | None \<Rightarrow> fullMatch)
           in replacement @ rewriteMarkdownImagePaths rest rewriteMap)
      | None \<Rightarrow> c # rewriteMarkdownImagePaths cs rewriteMap)"
  by pat_completeness auto
termination
  by (relation "measure (\<lambda>(s, m). length s)") (auto dest: match_image_shorter)

subsection \<open>Task progress (import-export.schema.ts)\<close>

record ImportReport =
  rep_succeeded :: "(jsstring \<times> jsstring) list"
  rep_failed :: "(jsstring \<times> jsstring) list"
  rep_warnings :: "jsstring list"

datatype task_status = Pending | Processing | Completed | Failed

record TaskProgress =
  tp_status :: task_status
  tp_total :: nat
  tp_completed :: nat
  tp_current :: jsstring
  tp_errors :: "(jsstring \<times> jsstring) list"
  tp_warnings :: "jsstring list"
  tp_downloadKey :: "jsstring option"
  tp_report :: "ImportReport option"

subsection \<open>Storage\<close>

text \<open>
  The rows of the relational store that an import touches, the blob store, and the
  status store as the sequence of the progress records written to it, each under its
  key, with the number of writes it has been asked for so far. An identifier is
  assigned on insertion. Statements of the relational store are taken to succeed;
  failing calls of the blob store and of the status store are parameters.
\<close>

record post_row =
  post_id :: nat
  post_title :: jsstring
  post_slug :: jsstring
  post_summary :: "jsstring option"
  post_contentJson :: "JSONContent option"
  post_status :: jsstring
  post_readTimeInMinutes :: jsnum
  post_publishedAt :: "int option option"
  post_createdAt :: int
  post_updatedAt :: int

record tag_row =
  tag_id :: nat
  tag_name :: jsstring
  tag_createdAt :: int

record media_row =
  media_id :: nat
  media_key :: jsstring
  media_url :: jsstring
  media_fileName :: jsstring
  media_mimeType :: jsstring
  media_sizeInBytes :: nat

record database =
  posts :: "post_row list"
  tag_rows :: "tag_row list"
  post_tag_rows :: "(nat \<times> nat) list"
  media_rows :: "media_row list"
  post_media_rows :: "(nat \<times> jsstring) list"

record world =
  db :: database
  r2 :: "jsstring \<rightharpoonup> bytes"
  kv :: "(jsstring \<times> TaskProgress) list"
  kv_writes :: nat

definition next_id :: "nat list \<Rightarrow> nat" where
  "next_id ids = Suc (foldr max ids 0)"

text \<open>\<^verbatim>\<open>PostRepo.slugExists(db, slug)\<close>, without \<^verbatim>\<open>excludeId\<close>.\<close>

definition slugExists :: "database \<Rightarrow> jsstring \<Rightarrow> bool" where
  "slugExists d s = (s \<in> set (map post_slug (posts d)))"

text \<open>\<^verbatim>\<open>PostRepo.insertPost(db, data)\<close>: the row is stored under a fresh identifier and
  returned.\<close>

definition insertPost :: "database \<Rightarrow> post_row \<Rightarrow> post_row \<times> database" where
  "insertPost d row =
     (let post = row\<lparr> post_id := next_id (map post_id (posts d)) \<rparr>
      in (post, d\<lparr> posts := posts d @ [post] \<rparr>))"

text \<open>\<^verbatim>\<open>MediaRepo.insertMedia(db, data)\<close>\<close>

definition insertMedia :: "database \<Rightarrow> media_row \<Rightarrow> media_row \<times> database" where
  "insertMedia d row =
     (let inserted = row\<lparr> media_id := next_id (map media_id (media_rows d)) \<rparr>
      in (inserted, d\<lparr> media_rows := media_rows d @ [inserted] \<rparr>))"

text \<open>Modelled from the spec: \<^verbatim>\<open>TagRepo.findTagByName\<close> and \<^verbatim>\<open>TagRepo.insertTag\<close> of
  \<^verbatim>\<open>tags.data\<close> are not among the sources; tags are resolved by name, reused when
  present and inserted when absent; a new row is stamped with the time of insertion.\<close>

definition findTagByName :: "database \<Rightarrow> jsstring \<Rightarrow> tag_row option" where
  "findTagByName d name = find (\<lambda>t. tag_name t = name) (tag_rows d)"

definition insertTag :: "int \<Rightarrow> database \<Rightarrow> jsstring \<Rightarrow> tag_row \<times> database" where
  "insertTag time d name =
     (let tag = \<lparr> tag_id = next_id (map tag_id (tag_rows d)), tag_name = name,
                   tag_createdAt = time \<rparr>
      in (tag, d\<lparr> tag_rows := tag_rows d @ [tag] \<rparr>))"

text \<open>\<^verbatim>\<open>PostRepo.findSimilarSlugs\<close> with the filter of \<^verbatim>\<open>generateSlug\<close> applied: the
  numbers \<open>n\<close> of the stored slugs of the form \<^verbatim>\<open>baseSlug-n\<close>, as \<^verbatim>\<open>parseInt\<close> reads
  them below \<open>2\<^sup>5\<^sup>3\<close>, the range in which the numbers of the platform are exact.\<close>

definition is_digit :: "nat \<Rightarrow> bool" where
  "is_digit c = (48 \<le> c \<and> c \<le> 57)"

definition parse_digits :: "jsstring \<Rightarrow> nat" where
  "parse_digits ds = foldl (\<lambda>n c. 10 * n + (c - 48)) 0 ds"

definition slug_suffix :: "jsstring \<Rightarrow> jsstring \<Rightarrow> nat option" where
  "slug_suffix baseSlug s =
     (let stem = baseSlug @ js ''-''; ds = drop (length stem) s
      in if startsWith s stem \<and> ds \<noteq> [] \<and> list_all is_digit ds
         then Some (parse_digits ds) else None)"

text \<open>\<^verbatim>\<open>PostService.generateSlug(context, { title })\<close>\<close>

definition generateSlug :: "(jsstring \<Rightarrow> jsstring) \<Rightarrow> database \<Rightarrow> jsstring \<Rightarrow> jsstring" where
  "generateSlug toLowerCase d title_text =
     (let baseSlug = slugify toLowerCase (Some title_text) in
      if slugExists d baseSlug then
        (let maxSuffix =
               foldl (\<lambda>mx s. case slug_suffix baseSlug s of
                                Some number \<Rightarrow> if mx < number then number else mx
                              | None \<Rightarrow> mx)
                     0 (map post_slug (posts d))
         in baseSlug @ js ''-'' @ dec_digits (maxSuffix + 1))
      else baseSlug)"

subsection \<open>What an import depends on\<close>

text \<open>
  The functions of libraries, of the platform and of modules that are not among the
  sources: the front-matter parser (\<^verbatim>\<open>gray-matter\<close>), the markdown parser, the decoder
  of the archive library, \<^verbatim>\<open>JSON.parse\<close> and the cast of its result to a document
  tree, the code highlighter, the key functions of \<^verbatim>\<open>media.utils\<close>,
  \<^verbatim>\<open>syncPostMedia\<close>, \<^verbatim>\<open>toLowerCase\<close>, the clock, whether \<^verbatim>\<open>R2.put\<close> and
  \<^verbatim>\<open>R2.get\<close> fail for a key, whether the status store fails at its \<open>n\<close>-th write (a
  store that failed once may accept the next write), and for the workflows the codec
  of the archive library, the front-matter writer and \<^verbatim>\<open>JSON.stringify\<close>.
\<close>

record deps =
  platform_of :: platform
  matter :: "jsstring \<Rightarrow> js_error + (jsrecord \<times> jsstring)"
  markdownToJsonContent :: "jsstring \<Rightarrow> js_error + JSONContent"
  lib_strFromU8 :: "property \<Rightarrow> js_error + jsstring"
  lib_json_parse :: "jsstring \<Rightarrow> js_error + jsval"
  json_content :: "jsval \<Rightarrow> JSONContent"
  highlight :: "jsstring \<Rightarrow> jsstring \<Rightarrow> js_error + jsstring"
  generateKey :: "jsstring \<Rightarrow> jsstring"
  getContentTypeFromKey :: "jsstring \<Rightarrow> jsstring option"
  extractImageKey :: "jsstring \<Rightarrow> jsstring option"
  syncPostMedia :: "database \<Rightarrow> nat \<Rightarrow> JSONContent \<Rightarrow> database"
  toLowerCase :: "jsstring \<Rightarrow> jsstring"
  now :: int
  r2_put_error :: "jsstring \<Rightarrow> js_error option"
  r2_get_error :: "jsstring \<Rightarrow> js_error option"
  kv_put_error :: "nat \<Rightarrow> jsstring \<Rightarrow> js_error option"
  unzipSync :: "bytes \<Rightarrow> js_error + zipfiles"
  zipSync :: "zipfiles \<Rightarrow> bytes"
  strToU8 :: "jsstring \<Rightarrow> bytes"
  matter_stringify :: "PostFrontmatter \<Rightarrow> jsstring \<Rightarrow> jsstring"
  stringify_tree :: "JSONContent \<Rightarrow> jsstring"
  json_stringify :: "jsval \<Rightarrow> jsstring"

text \<open>\<^verbatim>\<open>parseFrontmatter(raw)\<close> of frontmatter.ts hands the string to the front-matter
  parser and returns its data and content; it has no handler of its own.\<close>

definition parseFrontmatter :: "deps \<Rightarrow> jsstring \<Rightarrow> js_error + (jsrecord \<times> jsstring)" where
  "parseFrontmatter D raw = matter D raw"

record PostEntry =
  entry_dir :: jsstring
  entry_title :: jsstring
  entry_prefix :: jsstring
  entry_mdPath :: "jsstring option"

datatype import_mode = Native | Markdown

record import_result =
  result_title :: jsstring
  result_slug :: jsstring
  result_skipped :: bool
  result_warnings :: "jsstring list"

subsection \<open>Tree rewriting and highlighting (image-rewriter.ts, posts/utils/content.ts)\<close>

text \<open>\<^verbatim>\<open>rewriteImagePaths(doc, rewriteMap)\<close>: the traversal of the cloned tree.\<close>

text \<open>A \<^verbatim>\<open>Map<string, string>\<close>: the entries in insertion order.\<close>

type_synonym string_map = "(jsstring \<times> jsstring) list"

text \<open>\<^verbatim>\<open>map.set(k, v)\<close>, and likewise \<^verbatim>\<open>object[k] = v\<close>: an existing key keeps its place.\<close>

definition map_set :: "'k \<Rightarrow> 'v \<Rightarrow> ('k \<times> 'v) list \<Rightarrow> ('k \<times> 'v) list" where
  "map_set k v m =
     (if k \<in> set (map fst m) then map (\<lambda>kv. if fst kv = k then (k, v) else kv) m
      else m @ [(k, v)])"

definition rewrite_src :: "deps \<Rightarrow> string_map \<Rightarrow> attrs option \<Rightarrow> attrs option" where
  "rewrite_src D rewriteMap a =
     (case attr attr_src a of
        None \<Rightarrow> a
      | Some s \<Rightarrow>
          if s = [] then a
          else (case extractImageKey D s of
                  None \<Rightarrow> a
                | Some oldKey \<Rightarrow>
                    if oldKey = [] then a
                    else (case map_of rewriteMap oldKey of
                            None \<Rightarrow> a
                          | Some newKey \<Rightarrow>
                              map_option
                                (\<lambda>r. r\<lparr> attr_src := Some (js ''/images/'' @ newKey @ js ''?quality=80'') \<rparr>)
                                a)))"

fun rewriteImagePaths :: "deps \<Rightarrow> string_map \<Rightarrow> JSONContent \<Rightarrow> JSONContent" where
  "rewriteImagePaths D rewriteMap (Node t a c m tx) =
     Node t (if t = Some (js ''image'') then rewrite_src D rewriteMap a else a)
       (map_option (map (rewriteImagePaths D rewriteMap)) c) m tx"

text \<open>\<^verbatim>\<open>highlightCodeBlocks(doc)\<close>: a code block gets its highlighted markup unless the
  highlighter throws; the children follow.\<close>

definition highlight_attrs :: "deps \<Rightarrow> attrs option \<Rightarrow> JSONContent list option \<Rightarrow> attrs option" where
  "highlight_attrs D a c =
     (let code = (case c of None \<Rightarrow> []
                  | Some ns \<Rightarrow> concat (map (\<lambda>n. or_else (text_of n) []) ns));
          lang0 = or_else (attr attr_language a) [];
          lang = (if lang0 = [] then js ''text'' else lang0)
      in case highlight D (trim code) lang of
           Inl e \<Rightarrow> a
         | Inr html \<Rightarrow> Some ((or_else a no_attrs)\<lparr> attr_highlightedHtml := Some html \<rparr>))"

fun highlightCodeBlocks :: "deps \<Rightarrow> JSONContent \<Rightarrow> JSONContent" where
  "highlightCodeBlocks D (Node t a c m tx) =
     Node t (if t = Some (js ''codeBlock'') then highlight_attrs D a c else a)
       (map_option (map (highlightCodeBlocks D)) c) m tx"

subsection \<open>Uploading images\<close>

text \<open>\<^verbatim>\<open>env.R2.put(...)\<close> followed by \<^verbatim>\<open>MediaRepo.insertMedia(...)\<close>, inside the
  \<^verbatim>\<open>try\<close>: the new world, or the error of the blob store. \<^verbatim>\<open>R2.put\<close> takes a
  stream, a buffer, a string or a blob, and throws a \<^verbatim>\<open>TypeError\<close> when it is handed
  a member of \<^verbatim>\<open>Object.prototype\<close>.\<close>

definition put_and_record ::
  "deps \<Rightarrow> jsstring \<Rightarrow> jsstring \<Rightarrow> property \<Rightarrow> world \<Rightarrow> js_error + world" where
  "put_and_record D newKey fileName imageData w =
     (case imageData of
        Member n \<Rightarrow> Inl (Error (js ''TypeError''))
      | Payload data \<Rightarrow>
          (case r2_put_error D newKey of
             Some e \<Rightarrow> Inl e
           | None \<Rightarrow>
               (let mimeType = (case getContentTypeFromKey D fileName of
                                  None \<Rightarrow> js ''application/octet-stream''
                                | Some ct \<Rightarrow> if ct = [] then js ''application/octet-stream'' else ct);
                    row = \<lparr> media_id = 0, media_key = newKey,
                            media_url = js ''/images/'' @ newKey, media_fileName = fileName,
                            media_mimeType = mimeType, media_sizeInBytes = length data \<rparr>
                in Inr (w\<lparr> r2 := (r2 w)(newKey \<mapsto> data),
                           db := snd (insertMedia (db w) row) \<rparr>))))"

text \<open>The state of an upload loop: the rewrite map, the warnings and the world.\<close>

type_synonym upload_state = "string_map \<times> jsstring list \<times> world"

text \<open>The body of the loop of \<^verbatim>\<open>uploadImages\<close> (native mode), and the loop. What the
  \<^verbatim>\<open>try\<close> throws is logged and becomes a warning.\<close>

definition upload_one :: "deps \<Rightarrow> zipfiles \<Rightarrow> jsstring \<Rightarrow> upload_state \<Rightarrow> jsstring \<Rightarrow> upload_state" where
  "upload_one D zipFiles imagePrefix st imagePath =
     (case st of (rewriteMap, warnings, w) \<Rightarrow>
        if \<not> has_property zipFiles imagePath then st
        else
          (let imageData = the (get_property zipFiles imagePath)
           in if property_length imageData = Some 0 then st
              else
                (let oldKey = drop (length imagePrefix) imagePath;
                     newKey = generateKey D oldKey
                 in case put_and_record D newKey oldKey imageData w of
                      Inr w' \<Rightarrow> (map_set oldKey newKey rewriteMap, warnings, w')
                    | Inl e \<Rightarrow> (rewriteMap, warnings @ [msg_upload_failed @ oldKey], w))))"

definition uploadImages :: "deps \<Rightarrow> zipfiles \<Rightarrow> PostEntry \<Rightarrow> world \<Rightarrow> upload_state" where
  "uploadImages D zipFiles entry w =
     (let imagePrefix = entry_prefix entry @ js ''/images/''
      in foldl (upload_one D zipFiles imagePrefix) ([], [], w)
           (listFiles zipFiles imagePrefix))"

text \<open>\<^verbatim>\<open>resolvedPath.split("/").pop() || resolvedPath\<close>\<close>

definition file_name_of :: "jsstring \<Rightarrow> jsstring" where
  "file_name_of resolvedPath =
     (let name = last (split_on 47 resolvedPath)
      in if name = [] then resolvedPath else name)"

text \<open>The body of the loop of \<^verbatim>\<open>uploadMarkdownImages\<close>.\<close>

definition upload_markdown_one ::
  "deps \<Rightarrow> zipfiles \<Rightarrow> jsstring \<Rightarrow> upload_state \<Rightarrow> jsstring \<Rightarrow> upload_state" where
  "upload_markdown_one D zipFiles mdDir st original =
     (case st of (rewriteMap, warnings, w) \<Rightarrow>
        (let resolvedPath = resolveRelativePath mdDir original
         in if \<not> has_property zipFiles resolvedPath
            then (rewriteMap, warnings @ [msg_image_missing @ original], w)
            else
              (let imageData = the (get_property zipFiles resolvedPath)
               in if property_length imageData = Some 0 then st
                  else
                    (let fileName = file_name_of resolvedPath;
                         newKey = generateKey D fileName
                     in case put_and_record D newKey fileName imageData w of
                          Inr w' \<Rightarrow>
                            (map_set original (js ''/images/'' @ newKey @ js ''?quality=80'')
                               rewriteMap,
                             warnings, w')
                        | Inl e \<Rightarrow>
                            (rewriteMap, warnings @ [msg_upload_failed @ original], w)))))"

text \<open>\<^verbatim>\<open>uploadMarkdownImages(env, zipFiles, markdown, mdDir)\<close>: the rewritten markdown, the
  warnings and the world after the uploads.\<close>

definition uploadMarkdownImages ::
  "deps \<Rightarrow> zipfiles \<Rightarrow> jsstring \<Rightarrow> jsstring \<Rightarrow> world \<Rightarrow> jsstring \<times> jsstring list \<times> world" where
  "uploadMarkdownImages D zipFiles markdown mdDir w =
     (let images = extractMarkdownImages markdown;
          relativeImages = filter (\<lambda>img. snd img = Relative) images
      in if relativeImages = [] then (markdown, [], w)
         else
           (case foldl (upload_markdown_one D zipFiles mdDir) ([], [], w)
                   (map fst relativeImages) of
              (rewriteMap, warnings, w') \<Rightarrow>
                (if rewriteMap = [] then markdown
                 else rewriteMarkdownImagePaths markdown (map_of rewriteMap),
                 warnings, w')))"

subsection \<open>importSinglePost\<close>

text \<open>What step 1 produces: the content tree, the raw metadata and the warnings.\<close>

type_synonym parsed_post = "JSONContent option \<times> jsrecord \<times> jsstring list"

text \<open>The conversion of the markdown body, inside its \<^verbatim>\<open>try\<close>: a failure becomes a
  warning.\<close>

definition convert_markdown :: "deps \<Rightarrow> jsstring \<Rightarrow> JSONContent option \<times> jsstring list" where
  "convert_markdown D body =
     (case markdownToJsonContent D body of
        Inr tree \<Rightarrow> (Some tree, [])
      | Inl e \<Rightarrow> (None, [msg_markdown_failed @ error_reason e]))"

text \<open>Step 1 in native mode: \<^verbatim>\<open>content.json\<close> is preferred, the markdown body is
  converted only without it. Nothing is stored.\<close>

definition parse_native :: "deps \<Rightarrow> zipfiles \<Rightarrow> PostEntry \<Rightarrow> js_error + parsed_post" where
  "parse_native D zipFiles entry =
     (case readJsonFile (lib_strFromU8 D) (lib_json_parse D) zipFiles
             (entry_prefix entry @ js ''/content.json'') of
        Inl e \<Rightarrow> Inl e
      | Inr rawJson \<Rightarrow>
          (let contentJson = (case rawJson of
                                None \<Rightarrow> None
                              | Some v \<Rightarrow> if truthy v then Some (json_content D v) else None)
           in case readTextFile (lib_strFromU8 D) zipFiles
                     (entry_prefix entry @ js ''/index.md'') of
                Inl e \<Rightarrow> Inl e
              | Inr mdContent \<Rightarrow>
                  if no_text mdContent then Inr (contentJson, Map.empty, [])
                  else
                    (case parseFrontmatter D (the mdContent) of
                       Inl e \<Rightarrow> Inl e
                     | Inr (data, body) \<Rightarrow>
                         if contentJson = None \<and> trim body \<noteq> []
                         then (case convert_markdown D body of
                                 (tree, warnings) \<Rightarrow> Inr (tree, data, warnings))
                         else Inr (contentJson, data, []))))"

text \<open>Step 1 in markdown mode: the relative images of the body are uploaded, and
  recorded in the media table, before the body is converted.\<close>

definition parse_markdown ::
  "deps \<Rightarrow> zipfiles \<Rightarrow> PostEntry \<Rightarrow> world \<Rightarrow> (js_error + parsed_post) \<times> world" where
  "parse_markdown D zipFiles entry w =
     (let mdPath = (case entry_mdPath entry of
                      None \<Rightarrow> entry_prefix entry @ js ''/'' @ entry_dir entry @ js ''.md''
                    | Some path \<Rightarrow>
                        if path = []
                        then entry_prefix entry @ js ''/'' @ entry_dir entry @ js ''.md''
                        else path)
      in case readTextFile (lib_strFromU8 D) zipFiles mdPath of
           Inl e \<Rightarrow> (Inl e, w)
         | Inr mdContent \<Rightarrow>
             if no_text mdContent then (Inr (None, Map.empty, []), w)
             else
               (case parseFrontmatter D (the mdContent) of
                  Inl e \<Rightarrow> (Inl e, w)
                | Inr (data, body) \<Rightarrow>
                    if trim body \<noteq> [] then
                      (let mdDir = take (last_index_of 47 mdPath) mdPath
                       in case uploadMarkdownImages D zipFiles body mdDir w of
                            (rewrittenMarkdown, image_warnings, w') \<Rightarrow>
                              (case convert_markdown D rewrittenMarkdown of
                                 (tree, warnings) \<Rightarrow>
                                   (Inr (tree, data, image_warnings @ warnings), w')))
                    else (Inr (None, data, []), w)))"
text \<open>\<^verbatim>\<open>[...new Set(tags)]\<close>: the first occurrence of each tag, in order.\<close>

definition unique_in_order :: "jsstring list \<Rightarrow> jsstring list" where
  "unique_in_order xs = rev (remdups (rev xs))"

text \<open>Step 6, the loop that resolves the tags: a tag is looked up by name and inserted when
  it is missing.\<close>

definition resolve_tag :: "int \<Rightarrow> nat list \<times> database \<Rightarrow> jsstring \<Rightarrow> nat list \<times> database" where
  "resolve_tag time st tagName =
     (case st of (tagIds, d) \<Rightarrow>
        (case findTagByName d tagName of
           Some tag \<Rightarrow> (tagIds @ [tag_id tag], d)
         | None \<Rightarrow>
             (case insertTag time d tagName of (tag, d') \<Rightarrow> (tagIds @ [tag_id tag], d'))))"

text \<open>A string of the canonical record that is neither missing nor empty.\<close>

fun present :: "jsstring optnull \<Rightarrow> jsstring option" where
  "present (Value s) = (if s = [] then None else Some s)"
| "present v = None"

fun optnull_string :: "jsstring optnull \<Rightarrow> jsstring option" where
  "optnull_string (Value s) = Some s"
| "optnull_string v = None"

text \<open>Steps 3 to 9 of \<^verbatim>\<open>importSinglePost\<close>, after the slug check: images (native mode),
  highlighting, the unique slug, tags, the post, its tag links and its media links. The
  store stamps a new post with the time of insertion.\<close>

definition persist_post ::
  "deps \<Rightarrow> zipfiles \<Rightarrow> PostEntry \<Rightarrow> import_mode \<Rightarrow> PostFrontmatter \<Rightarrow> jsstring \<Rightarrow>
   JSONContent option \<Rightarrow> jsstring list \<Rightarrow> world \<Rightarrow> import_result \<times> world" where
  "persist_post D zipFiles entry mode normalized title_text contentJson0 warnings0 w0 =
     (let (contentJson1, warnings, w1) =
            (case contentJson0 of
               Some tree \<Rightarrow>
                 if mode = Native then
                   (case uploadImages D zipFiles entry w0 of
                      (rewriteMap, image_warnings, w') \<Rightarrow>
                        (if rewriteMap = [] then Some tree
                         else Some (rewriteImagePaths D rewriteMap tree),
                         warnings0 @ image_warnings, w'))
                 else (Some tree, warnings0, w0)
             | None \<Rightarrow> (None, warnings0, w0));
          contentJson = map_option (highlightCodeBlocks D) contentJson1;
          slug_text = generateSlug (toLowerCase D) (db w1)
                        (if slug normalized = [] then title_text else slug normalized);
          (tagIds, d2) = foldl (resolve_tag (now D)) ([], db w1)
                           (unique_in_order (tags normalized));
          (post, d3) = insertPost d2
             \<lparr> post_id = 0, post_title = title_text, post_slug = slug_text,
               post_summary = optnull_string (summary normalized),
               post_contentJson = contentJson,
               post_status = (if status normalized = js ''draft'' then js ''draft''
                              else js ''published''),
               post_readTimeInMinutes = readTimeInMinutes normalized,
               post_publishedAt =
                 (case present (publishedAt normalized) of
                    Some s \<Rightarrow> Some (date_parse (platform_of D) s)
                  | None \<Rightarrow>
                      if status normalized \<noteq> js ''draft'' then Some (Some (now D)) else None),
               post_createdAt = now D, post_updatedAt = now D \<rparr>;
          d4 = (if tagIds = [] then d3
                else d3\<lparr> post_tag_rows :=
                            post_tag_rows d3 @ map (\<lambda>tagId. (post_id post, tagId)) tagIds \<rparr>);
          d5 = (case contentJson of
                  Some tree \<Rightarrow> syncPostMedia D d4 (post_id post) tree
                | None \<Rightarrow> d4)
      in (\<lparr> result_title = post_title post, result_slug = post_slug post,
             result_skipped = False, result_warnings = warnings \<rparr>,
          w1\<lparr> db := d5 \<rparr>))"

text \<open>Step 2 and the rest, given what step 1 produced in the world \<open>w\<close>: the metadata is
  normalised (a failure is thrown), the candidate slug is looked up, and a post whose
  slug exists is skipped.\<close>

definition check_and_persist ::
  "deps \<Rightarrow> zipfiles \<Rightarrow> PostEntry \<Rightarrow> import_mode \<Rightarrow> parsed_post \<Rightarrow> world \<Rightarrow>
   (js_error + import_result) \<times> world" where
  "check_and_persist D zipFiles entry mode parsed w =
     (case parsed of (contentJson, metadata, warnings) \<Rightarrow>
        (case normalizeFrontmatter (platform_of D) metadata of
           Inl e \<Rightarrow> (Inl e, w)
         | Inr None \<Rightarrow> (Inl (Error msg_bad_metadata), w)
         | Inr (Some normalized) \<Rightarrow>
             (let title_text = (if title normalized = [] then js ''Untitled''
                                else title normalized);
                  candidateSlug = (if slug normalized = [] then title_text
                                   else slug normalized)
              in if slugExists (db w) (slugify (toLowerCase D) (Some candidateSlug))
                 then (Inr \<lparr> result_title = title_text, result_slug = candidateSlug,
                             result_skipped = True, result_warnings = warnings \<rparr>, w)
                 else (case persist_post D zipFiles entry mode normalized title_text
                              contentJson warnings w of
                         (res, w') \<Rightarrow> (Inr res, w')))))"

text \<open>
  \<^verbatim>\<open>importSinglePost(env, zipFiles, entry, mode)\<close>: the result or the thrown error, and
  the world it leaves behind (a throw does not undo what was stored before it).
\<close>

definition importSinglePost ::
  "deps \<Rightarrow> zipfiles \<Rightarrow> PostEntry \<Rightarrow> import_mode \<Rightarrow> world \<Rightarrow>
   (js_error + import_result) \<times> world" where
  "importSinglePost D zipFiles entry mode w =
     (if mode = Native then
        (case parse_native D zipFiles entry of
           Inl e \<Rightarrow> (Inl e, w)
         | Inr parsed \<Rightarrow> check_and_persist D zipFiles entry mode parsed w)
      else
        (case parse_markdown D zipFiles entry w of
           (Inl e, w') \<Rightarrow> (Inl e, w')
         | (Inr parsed, w') \<Rightarrow> check_and_persist D zipFiles entry mode parsed w'))"

section \<open>The import workflow (import-helpers.ts, import.workflow.ts)\<close>

subsection \<open>Enumerating the posts of an archive\<close>

text \<open>The \<^verbatim>\<open>map\<close> and \<^verbatim>\<open>filter\<close> of an enumeration: the entries that were found, in
  order; the first throw ends it.\<close>

fun collect_entries :: "('a \<Rightarrow> js_error + PostEntry option) \<Rightarrow> 'a list \<Rightarrow> js_error + PostEntry list" where
  "collect_entries f [] = Inr []"
| "collect_entries f (x # xs) =
     (case f x of
        Inl e \<Rightarrow> Inl e
      | Inr found \<Rightarrow>
          (case collect_entries f xs of
             Inl e \<Rightarrow> Inl e
           | Inr entries \<Rightarrow>
               Inr (case found of None \<Rightarrow> entries | Some entry \<Rightarrow> entry # entries)))"

text \<open>The title of the post in a markdown file: none when the file is missing or empty
  or when its metadata does not normalise.\<close>

definition normalized_title :: "deps \<Rightarrow> zipfiles \<Rightarrow> jsstring \<Rightarrow> js_error + jsstring option" where
  "normalized_title D zipFiles path =
     (case readTextFile (lib_strFromU8 D) zipFiles path of
        Inl e \<Rightarrow> Inl e
      | Inr mdContent \<Rightarrow>
          if no_text mdContent then Inr None
          else (case parseFrontmatter D (the mdContent) of
                  Inl e \<Rightarrow> Inl e
                | Inr (data, body) \<Rightarrow>
                    (case normalizeFrontmatter (platform_of D) data of
                       Inl e \<Rightarrow> Inl e
                     | Inr None \<Rightarrow> Inr None
                     | Inr (Some normalized) \<Rightarrow> Inr (Some (title normalized)))))"

definition enumerateNativePosts :: "deps \<Rightarrow> zipfiles \<Rightarrow> js_error + PostEntry list" where
  "enumerateNativePosts D zipFiles =
     collect_entries
       (\<lambda>dir. case normalized_title D zipFiles (js ''posts/'' @ dir @ js ''/index.md'') of
                 Inl e \<Rightarrow> Inl e
               | Inr None \<Rightarrow> Inr None
               | Inr (Some t) \<Rightarrow>
                   Inr (Some \<lparr> entry_dir = dir, entry_title = t,
                               entry_prefix = js ''posts/'' @ dir, entry_mdPath = None \<rparr>))
       (listDirectories zipFiles (js ''posts/''))"

text \<open>\<^verbatim>\<open>s.endsWith(p)\<close>\<close>

definition endsWith :: "jsstring \<Rightarrow> jsstring \<Rightarrow> bool" where
  "endsWith s p = (length p \<le> length s \<and> drop (length s - length p) s = p)"

text \<open>\<^verbatim>\<open>path.replace(/\.md$/, "").split("/").pop() || path\<close>\<close>

definition md_base_name :: "jsstring \<Rightarrow> jsstring" where
  "md_base_name path =
     (let stem = (if endsWith path (js ''.md'') then take (length path - 3) path else path);
          name = last (split_on 47 stem)
      in if name = [] then path else name)"

definition enumerateMarkdownPosts :: "deps \<Rightarrow> zipfiles \<Rightarrow> js_error + PostEntry list" where
  "enumerateMarkdownPosts D zipFiles =
     collect_entries
       (\<lambda>path. case normalized_title D zipFiles path of
                  Inl e \<Rightarrow> Inl e
                | Inr None \<Rightarrow> Inr None
                | Inr (Some t) \<Rightarrow>
                    Inr (Some \<lparr> entry_dir = md_base_name path, entry_title = t,
                                entry_prefix = take (last_index_of 47 path) path,
                                entry_mdPath = Some path \<rparr>))
       (filter (\<lambda>p. endsWith p (js ''.md'') \<and> \<not> startsWith p (js ''__MACOSX''))
          (map fst zipFiles))"

subsection \<open>The steps\<close>

text \<open>\<^verbatim>\<open>updateProgress(key, progress)\<close>: one call of \<^verbatim>\<open>CacheService.set\<close>. The
  record is written to the status store unless the store fails at this write; either
  way the store has been asked once more.\<close>

definition updateProgress ::
  "deps \<Rightarrow> jsstring \<Rightarrow> TaskProgress \<Rightarrow> world \<Rightarrow> js_error option \<times> world" where
  "updateProgress D key progress w =
     (case kv_put_error D (kv_writes w) key of
        Some e \<Rightarrow> (Some e, w\<lparr> kv_writes := Suc (kv_writes w) \<rparr>)
      | None \<Rightarrow> (None, w\<lparr> kv := kv w @ [(key, progress)], kv_writes := Suc (kv_writes w) \<rparr>))"

text \<open>\<^verbatim>\<open>fetchZipFiles(r2Key)\<close>: the archive is read from the blob store and parsed.\<close>

definition fetchZipFiles :: "deps \<Rightarrow> jsstring \<Rightarrow> world \<Rightarrow> js_error + zipfiles" where
  "fetchZipFiles D r2Key w =
     (case r2_get_error D r2Key of
        Some e \<Rightarrow> Inl e
      | None \<Rightarrow>
          (case r2 w r2Key of
             None \<Rightarrow> Inl (Error msg_zip_missing)
           | Some data \<Rightarrow> unzipSync D data))"

definition empty_report :: ImportReport where
  "empty_report = \<lparr> rep_succeeded = [], rep_failed = [], rep_warnings = [] \<rparr>"

text \<open>\<^verbatim>\<open>entry.title || entry.dir\<close>\<close>

definition entry_label :: "PostEntry \<Rightarrow> jsstring" where
  "entry_label entry = (if entry_title entry = [] then entry_dir entry else entry_title entry)"

text \<open>The report of one imported post, from the result of \<^verbatim>\<open>importSinglePost\<close>.\<close>

definition result_report :: "import_result \<Rightarrow> ImportReport" where
  "result_report res =
     \<lparr> rep_succeeded = (if result_skipped res then []
                         else [(result_title res, result_slug res)]),
       rep_failed = [],
       rep_warnings =
         (if result_skipped res then [js ''['' @ result_title res @ msg_slug_exists] else []) @
         map (\<lambda>wn. js ''['' @ result_title res @ js ''] '' @ wn) (result_warnings res) \<rparr>"

text \<open>The step that imports one post: whatever is thrown inside becomes a failed entry
  of the step's report.\<close>

definition import_step ::
  "deps \<Rightarrow> jsstring \<Rightarrow> import_mode \<Rightarrow> PostEntry \<Rightarrow> world \<Rightarrow> ImportReport \<times> world" where
  "import_step D r2Key mode entry w =
     (case fetchZipFiles D r2Key w of
        Inl e \<Rightarrow> (empty_report\<lparr> rep_failed := [(entry_label entry, error_reason e)] \<rparr>, w)
      | Inr zipFiles \<Rightarrow>
          (case importSinglePost D zipFiles entry mode w of
             (Inl e, w') \<Rightarrow>
               (empty_report\<lparr> rep_failed := [(entry_label entry, error_reason e)] \<rparr>, w')
           | (Inr res, w') \<Rightarrow> (result_report res, w')))"

text \<open>The loop over the entries: the step's report is added to the report of the task,
  and the progress is written after every post.\<close>

fun import_loop ::
  "deps \<Rightarrow> jsstring \<Rightarrow> import_mode \<Rightarrow> jsstring \<Rightarrow> nat \<Rightarrow> nat \<Rightarrow> PostEntry list \<Rightarrow>
   ImportReport \<Rightarrow> world \<Rightarrow> (js_error + ImportReport) \<times> world" where
  "import_loop D r2Key mode progressKey n i [] report w = (Inr report, w)"
| "import_loop D r2Key mode progressKey n i (entry # rest) report w =
     (case import_step D r2Key mode entry w of
        (delta, w1) \<Rightarrow>
          (let report' = \<lparr> rep_succeeded = rep_succeeded report @ rep_succeeded delta,
                           rep_failed = rep_failed report @ rep_failed delta,
                           rep_warnings = rep_warnings report @ rep_warnings delta \<rparr>
           in case updateProgress D progressKey
                     \<lparr> tp_status = Processing, tp_total = n, tp_completed = i + 1,
                       tp_current = entry_label entry, tp_errors = rep_failed report',
                       tp_warnings = rep_warnings report', tp_downloadKey = None,
                       tp_report = None \<rparr> w1 of
                (Some e, w2) \<Rightarrow> (Inl e, w2)
              | (None, w2) \<Rightarrow> import_loop D r2Key mode progressKey n (i + 1) rest report' w2))"

record ImportWorkflowParams =
  imp_taskId :: jsstring
  imp_r2Key :: jsstring
  imp_mode :: import_mode

text \<open>\<^verbatim>\<open>IMPORT_EXPORT_CACHE_KEYS\<close>\<close>

definition importProgress :: "jsstring \<Rightarrow> jsstring" where
  "importProgress taskId = js ''import:progress:'' @ taskId"

definition exportProgress :: "jsstring \<Rightarrow> jsstring" where
  "exportProgress taskId = js ''export:progress:'' @ taskId"

text \<open>The record that the \<^verbatim>\<open>catch\<close> of a workflow writes.\<close>

definition failed_progress :: "js_error \<Rightarrow> TaskProgress" where
  "failed_progress e =
     \<lparr> tp_status = Failed, tp_total = 0, tp_completed = 0, tp_current = [], tp_errors = [],
       tp_warnings = [case e of Error m \<Rightarrow> m | Thrown s \<Rightarrow> msg_unknown],
       tp_downloadKey = None, tp_report = None \<rparr>"

text \<open>The \<^verbatim>\<open>catch\<close> block of \<^verbatim>\<open>run\<close>: the failure is written as the progress of the
  task; the run ends with an error only when that write fails too.\<close>

definition run_catch :: "deps \<Rightarrow> jsstring \<Rightarrow> js_error \<Rightarrow> world \<Rightarrow> js_error option \<times> world" where
  "run_catch D progressKey e w = updateProgress D progressKey (failed_progress e) w"

text \<open>The record for a task without posts.\<close>

definition nothing_to_do :: "jsstring \<Rightarrow> ImportReport option \<Rightarrow> TaskProgress" where
  "nothing_to_do message report =
     \<lparr> tp_status = Completed, tp_total = 0, tp_completed = 0, tp_current = [], tp_errors = [],
       tp_warnings = [message], tp_downloadKey = None, tp_report = report \<rparr>"

text \<open>The step \<^verbatim>\<open>enumerate posts\<close>.\<close>

definition enumerate_step :: "deps \<Rightarrow> ImportWorkflowParams \<Rightarrow> world \<Rightarrow> js_error + PostEntry list" where
  "enumerate_step D payload w =
     (case fetchZipFiles D (imp_r2Key payload) w of
        Inl e \<Rightarrow> Inl e
      | Inr zipFiles \<Rightarrow>
          if imp_mode payload = Native then enumerateNativePosts D zipFiles
          else enumerateMarkdownPosts D zipFiles)"

text \<open>
  \<^verbatim>\<open>ImportWorkflow.run\<close>. A step runs its body once; the result is the error that
  escapes \<^verbatim>\<open>run\<close>, if any, and the world at its end.
\<close>

definition ImportWorkflow_run :: "deps \<Rightarrow> ImportWorkflowParams \<Rightarrow> world \<Rightarrow> js_error option \<times> world" where
  "ImportWorkflow_run D payload w =
     (let progressKey = importProgress (imp_taskId payload) in
      case enumerate_step D payload w of
        Inl e \<Rightarrow> run_catch D progressKey e w
      | Inr postEntries \<Rightarrow>
          if length postEntries = 0 then
            (case updateProgress D progressKey
                    (nothing_to_do msg_no_importable (Some empty_report)) w of
               (Some e, w') \<Rightarrow> run_catch D progressKey e w'
             | (None, w') \<Rightarrow> (None, w'))
          else
            (case import_loop D (imp_r2Key payload) (imp_mode payload) progressKey
                    (length postEntries) 0 postEntries empty_report w of
               (Inl e, w1) \<Rightarrow> run_catch D progressKey e w1
             | (Inr report, w1) \<Rightarrow>
                 (let w2 = w1\<lparr> r2 := (r2 w1)(imp_r2Key payload := None) \<rparr>
                  in case updateProgress D progressKey
                            \<lparr> tp_status = Completed, tp_total = length postEntries,
                              tp_completed = length postEntries, tp_current = [],
                              tp_errors = rep_failed report,
                              tp_warnings = rep_warnings report, tp_downloadKey = None,
                              tp_report = Some report \<rparr> w2 of
                       (Some e, w3) \<Rightarrow> run_catch D progressKey e w3
                     | (None, w3) \<Rightarrow> (None, w3))))"

section \<open>The export workflow (export.workflow.ts)\<close>

text \<open>A post with its tags, as \<^verbatim>\<open>PostRepo.findFullPosts\<close> returns it.\<close>

type_synonym full_post = "post_row \<times> tag_row list"

text \<open>\<^verbatim>\<open>findFullPosts(db, { ids, status })\<close>: the posts with the given identifiers (all
  posts without any) and the given status (any without one), newest first, each with
  the tags linked to it.\<close>

definition findFullPosts :: "database \<Rightarrow> nat list option \<Rightarrow> jsstring option \<Rightarrow> full_post list" where
  "findFullPosts d ids wanted =
     (let selected =
            filter (\<lambda>p. (case ids of
                             None \<Rightarrow> True
                           | Some is \<Rightarrow> is = [] \<or> post_id p \<in> set is) \<and>
                          (case wanted of
                             None \<Rightarrow> True
                           | Some st \<Rightarrow> st = [] \<or> post_status p = st))
                   (posts d)
      in map (\<lambda>p. (p, concat (map (\<lambda>link. if fst link = post_id p
                                               then filter (\<lambda>t. tag_id t = snd link) (tag_rows d)
                                               else [])
                                   (post_tag_rows d))))
             (sort_key (\<lambda>p. - post_createdAt p) selected))"

text \<open>The files of the archive under construction: text or bytes under each path.\<close>

datatype zip_value = Text jsstring | Bytes bytes

type_synonym archive_files = "(jsstring \<times> zip_value) list"

text \<open>\<^verbatim>\<open>buildZip(files)\<close> of zip.ts: text is encoded, then the archive library builds the
  archive.\<close>

definition buildZip :: "deps \<Rightarrow> archive_files \<Rightarrow> bytes" where
  "buildZip D files =
     zipSync D (map (\<lambda>(path, c). (path, case c of Text s \<Rightarrow> strToU8 D s | Bytes b \<Rightarrow> b)) files)"

text \<open>\<^verbatim>\<open>parseZip(data)\<close> of zip.ts\<close>

definition parseZip :: "deps \<Rightarrow> bytes \<Rightarrow> js_error + zipfiles" where
  "parseZip D data = unzipSync D data"

text \<open>\<^verbatim>\<open>extractAllImageKeys(doc)\<close> of posts/utils/content.ts\<close>

fun image_keys :: "deps \<Rightarrow> JSONContent \<Rightarrow> jsstring list" where
  "image_keys D (Node t a c m tx) =
     (if t = Some (js ''image'') then
        (case attr attr_src a of
           None \<Rightarrow> []
         | Some s \<Rightarrow>
             if s = [] then []
             else (case extractImageKey D s of
                     None \<Rightarrow> []
                   | Some key \<Rightarrow> if key = [] then [] else [key]))
      else []) @
     concat (map (image_keys D) (case c of None \<Rightarrow> [] | Some ns \<Rightarrow> ns))"

definition extractAllImageKeys :: "deps \<Rightarrow> JSONContent \<Rightarrow> jsstring list" where
  "extractAllImageKeys D doc = unique_in_order (image_keys D doc)"

text \<open>\<^verbatim>\<open>makeExportImageRewriter()\<close> of markdown-serializer.ts\<close>

definition makeExportImageRewriter :: "deps \<Rightarrow> jsstring \<Rightarrow> jsstring" where
  "makeExportImageRewriter D s =
     (case extractImageKey D s of
        None \<Rightarrow> s
      | Some key \<Rightarrow> if key = [] then s else js ''./images/'' @ key)"

text \<open>The messages of a missing and of a failed image download.\<close>

definition msg_image_not_in_r2 :: "jsstring \<Rightarrow> jsstring \<Rightarrow> jsstring" where
  "msg_image_not_in_r2 key post =
     [22270, 29255, 32] @ key @ [32, 22312] @ js '' R2 '' @ [20013, 26410, 25214, 21040, 65288,
     25991, 31456] @ js '': '' @ post @ [65289]"

definition msg_download_failed :: "jsstring \<Rightarrow> jsstring \<Rightarrow> jsstring \<Rightarrow> jsstring" where
  "msg_download_failed key post reason =
     [19979, 36733, 22270, 29255, 32] @ key @ [32, 22833, 36133, 65288, 25991, 31456] @ js '': '' @
     post @ [65289] @ js '': '' @ reason"

text \<open>The download of one image of a post into the archive.\<close>

definition export_image ::
  "deps \<Rightarrow> world \<Rightarrow> jsstring \<Rightarrow> jsstring \<Rightarrow> archive_files \<times> jsstring list \<Rightarrow> jsstring \<Rightarrow>
   archive_files \<times> jsstring list" where
  "export_image D w pfx post_name st key =
     (case st of (files, warnings) \<Rightarrow>
        (case r2_get_error D key of
           Some e \<Rightarrow> (files, warnings @ [msg_download_failed key post_name
                                            (case e of Error m \<Rightarrow> m | Thrown s \<Rightarrow> s)])
         | None \<Rightarrow>
             (case r2 w key of
                Some data \<Rightarrow> (map_set (pfx @ js ''/images/'' @ key) (Bytes data) files, warnings)
              | None \<Rightarrow> (files, warnings @ [msg_image_not_in_r2 key post_name]))))"

text \<open>The front matter of an exported post; the conversion of an invalid publication
  date throws.\<close>

definition export_frontmatter :: "deps \<Rightarrow> full_post \<Rightarrow> js_error + PostFrontmatter" where
  "export_frontmatter D fp =
     (case fp of (post, post_tags) \<Rightarrow>
        (if post_publishedAt post = Some None then Inl (Error (js ''Invalid time value''))
         else Inr \<lparr> title = post_title post, slug = post_slug post,
                    summary = (case post_summary post of None \<Rightarrow> Undefined | Some s \<Rightarrow> Value s),
                    status = post_status post,
                    publishedAt = (case post_publishedAt post of
                                     Some (Some t) \<Rightarrow> Value (date_iso (platform_of D) t)
                                   | _ \<Rightarrow> Undefined),
                    createdAt = Value (date_iso (platform_of D) (post_createdAt post)),
                    updatedAt = Value (date_iso (platform_of D) (post_updatedAt post)),
                    readTimeInMinutes = post_readTimeInMinutes post,
                    tags = map tag_name post_tags \<rparr>))"

text \<open>The body of the loop over the posts, inside the step
  \<^verbatim>\<open>build and upload export\<close>.\<close>

definition export_post ::
  "deps \<Rightarrow> jsstring \<Rightarrow> nat \<Rightarrow> nat \<Rightarrow> full_post \<Rightarrow> archive_files \<times> jsstring list \<Rightarrow> world \<Rightarrow>
   (js_error + archive_files \<times> jsstring list) \<times> world" where
  "export_post D progressKey n i fp st w =
     (case export_frontmatter D fp of
        Inl e \<Rightarrow> (Inl e, w)
      | Inr frontmatter \<Rightarrow>
          (let post = fst fp;
               pfx = js ''posts/'' @ post_slug post;
               markdown = (case post_contentJson post of
                             None \<Rightarrow> []
                           | Some tree \<Rightarrow>
                               jsonContentToMarkdown (Some (makeExportImageRewriter D)) tree);
               files1 = map_set (pfx @ js ''/index.md'')
                          (Text (matter_stringify D frontmatter markdown)) (fst st);
               files2 = (case post_contentJson post of
                           None \<Rightarrow> files1
                         | Some tree \<Rightarrow>
                             map_set (pfx @ js ''/content.json'') (Text (stringify_tree D tree))
                               files1);
               st3 = (case post_contentJson post of
                        None \<Rightarrow> (files2, snd st)
                      | Some tree \<Rightarrow>
                          foldl (export_image D w pfx (post_title post)) (files2, snd st)
                            (extractAllImageKeys D tree))
           in case updateProgress D progressKey
                     \<lparr> tp_status = Processing, tp_total = n, tp_completed = i + 1,
                       tp_current = post_title post, tp_errors = [], tp_warnings = snd st3,
                       tp_downloadKey = None, tp_report = None \<rparr> w of
                (Some e, w') \<Rightarrow> (Inl e, w')
              | (None, w') \<Rightarrow> (Inr st3, w')))"

fun export_loop ::
  "deps \<Rightarrow> jsstring \<Rightarrow> nat \<Rightarrow> nat \<Rightarrow> full_post list \<Rightarrow> archive_files \<times> jsstring list \<Rightarrow> world \<Rightarrow>
   (js_error + archive_files \<times> jsstring list) \<times> world" where
  "export_loop D progressKey n i [] st w = (Inr st, w)"
| "export_loop D progressKey n i (fp # rest) st w =
     (case export_post D progressKey n i fp st w of
        (Inl e, w') \<Rightarrow> (Inl e, w')
      | (Inr st', w') \<Rightarrow> export_loop D progressKey n (i + 1) rest st' w')"

text \<open>\<^verbatim>\<open>tags.json\<close> and \<^verbatim>\<open>manifest.json\<close>.\<close>

definition tags_json :: "deps \<Rightarrow> full_post list \<Rightarrow> jsval" where
  "tags_json D found =
     JArr (map (\<lambda>(name, t). JObj [(js ''name'', JStr (tag_name t)),
                                   (js ''createdAt'',
                                    JStr (date_iso (platform_of D) (tag_createdAt t)))])
            (foldl (\<lambda>m t. map_set (tag_name t) t m) [] (concat (map snd found))))"

definition manifest_json :: "deps \<Rightarrow> nat \<Rightarrow> jsval" where
  "manifest_json D postCount =
     JObj [(js ''version'', JStr (js ''1.0'')),
           (js ''exportedAt'', JStr (date_iso (platform_of D) (now D))),
           (js ''postCount'', JNum (Finite (of_nat postCount))),
           (js ''generator'', JStr (js ''blog-cms''))]"

definition exportZip :: "jsstring \<Rightarrow> jsstring" where
  "exportZip taskId = js ''exports/'' @ taskId @ js ''.zip''"

text \<open>The step \<^verbatim>\<open>build and upload export\<close>.\<close>

definition build_and_upload ::
  "deps \<Rightarrow> jsstring \<Rightarrow> jsstring \<Rightarrow> full_post list \<Rightarrow> world \<Rightarrow> js_error option \<times> world" where
  "build_and_upload D taskId progressKey found w =
     (case export_loop D progressKey (length found) 0 found ([], []) w of
        (Inl e, w1) \<Rightarrow> (Some e, w1)
      | (Inr (files, warnings), w1) \<Rightarrow>
          (let files1 = map_set (js ''tags.json'') (Text (json_stringify D (tags_json D found)))
                          files;
               files2 = map_set (js ''manifest.json'')
                          (Text (json_stringify D (manifest_json D (length found)))) files1;
               zipData = buildZip D files2;
               r2Key = exportZip taskId
           in case r2_put_error D r2Key of
                Some e \<Rightarrow> (Some e, w1)
              | None \<Rightarrow>
                  (let w2 = w1\<lparr> r2 := (r2 w1)(r2Key \<mapsto> zipData) \<rparr>
                   in updateProgress D progressKey
                        \<lparr> tp_status = Completed, tp_total = length found,
                          tp_completed = length found, tp_current = [], tp_errors = [],
                          tp_warnings = warnings, tp_downloadKey = Some r2Key,
                          tp_report = None \<rparr> w2)))"

record ExportWorkflowParams =
  exp_taskId :: jsstring
  exp_postIds :: "nat list option"
  exp_status :: "jsstring option"

text \<open>
  \<^verbatim>\<open>ExportWorkflow.run\<close>, run to its end: after the export the workflow sleeps for a
  day and then deletes the archive from the blob store.
\<close>

definition ExportWorkflow_run :: "deps \<Rightarrow> ExportWorkflowParams \<Rightarrow> world \<Rightarrow> js_error option \<times> world" where
  "ExportWorkflow_run D payload w =
     (let progressKey = exportProgress (exp_taskId payload);
          found = findFullPosts (db w) (exp_postIds payload) (exp_status payload)
      in if length found = 0 then
           (case updateProgress D progressKey (nothing_to_do msg_no_exportable None) w of
              (Some e, w') \<Rightarrow> run_catch D progressKey e w'
            | (None, w') \<Rightarrow> (None, w'))
         else
           (case build_and_upload D (exp_taskId payload) progressKey found w of
              (Some e, w1) \<Rightarrow> run_catch D progressKey e w1
            | (None, w1) \<Rightarrow>
                (None, w1\<lparr> r2 := (r2 w1)(exportZip (exp_taskId payload) := None) \<rparr>)))"

section \<open>An archive for evaluating examples\<close>

text \<open>
  A markdown post \<^verbatim>\<open>hello.md\<close> with the title Hello and one relative image, the image
  beside it, and a store that already holds a post with the slug \<^verbatim>\<open>hello\<close>. The
  front-matter parser is given by what it returns for this file; keys are generated by
  prefixing \<^verbatim>\<open>k-\<close>; the decoder reads bytes as code units and rejects what is not
  a byte array; no call of a store fails.
\<close>

fun example_strFromU8 :: "property \<Rightarrow> js_error + jsstring" where
  "example_strFromU8 (Payload b) = Inr (map unat b)"
| "example_strFromU8 (Member n) = Inl (Error (js ''The provided value is not a buffer''))"

definition example_md :: jsstring where
  "example_md = js ''---'' @ [10] @ js ''title: Hello'' @ [10] @ js ''---'' @ [10] @ js ''![a](./a.png)''"

definition example_zip :: zipfiles where
  "example_zip = [(js ''hello.md'', map of_nat example_md), (js ''a.png'', [137, 80, 78, 71])]"

definition example_deps :: deps where
  "example_deps =
     \<lparr> platform_of = example_platform,
       matter = (\<lambda>raw. if raw = example_md
                       then Inr ([js ''title'' \<mapsto> JStr (js ''Hello'')], js ''![a](./a.png)'')
                       else Inr (Map.empty, raw)),
       markdownToJsonContent = (\<lambda>md. Inr (block_node ''doc'' [])),
       lib_strFromU8 = example_strFromU8,
       lib_json_parse = (\<lambda>s. Inl (Error (js ''Unexpected token''))),
       json_content = (\<lambda>v. block_node ''doc'' []),
       highlight = (\<lambda>code lang. Inr code),
       generateKey = (\<lambda>name. js ''k-'' @ name),
       getContentTypeFromKey = (\<lambda>name. Some (js ''image/png'')),
       extractImageKey = (\<lambda>s. None),
       syncPostMedia = (\<lambda>d post_id tree. d),
       toLowerCase = map (\<lambda>c. if 65 \<le> c \<and> c \<le> 90 then c + 32 else c),
       now = 0,
       r2_put_error = (\<lambda>key. None),
       r2_get_error = (\<lambda>key. None),
       kv_put_error = (\<lambda>n key. None),
       unzipSync = (\<lambda>data. if data = [80, 75] then Inr example_zip
                             else Inl (Error (js ''invalid zip data''))),
       zipSync = (\<lambda>files. [80, 75]),
       strToU8 = map of_nat,
       matter_stringify = (\<lambda>frontmatter markdown. markdown),
       stringify_tree = (\<lambda>tree. js ''{}''),
       json_stringify = (\<lambda>v. js ''{}'') \<rparr>"

definition example_entry :: PostEntry where
  "example_entry = \<lparr> entry_dir = js ''hello'', entry_title = js ''Hello'', entry_prefix = [],
                      entry_mdPath = Some (js ''hello.md'') \<rparr>"

definition example_world :: world where
  "example_world =
     \<lparr> db = \<lparr> posts = [\<lparr> post_id = 1, post_title = js ''Hello'', post_slug = js ''hello'',
                           post_summary = None, post_contentJson = None,
                           post_status = js ''published'', post_readTimeInMinutes = Finite 1,
                           post_publishedAt = None, post_createdAt = 0,
                           post_updatedAt = 0 \<rparr>],
              tag_rows = [], post_tag_rows = [], media_rows = [], post_media_rows = [] \<rparr>,
       r2 = Map.empty, kv = [], kv_writes = 0 \<rparr>"

definition example_media_row :: media_row where
  "example_media_row =
     \<lparr> media_id = 1, media_key = js ''k-a.png'', media_url = js ''/images/k-a.png'',
       media_fileName = js ''a.png'', media_mimeType = js ''image/png'',
       media_sizeInBytes = 4 \<rparr>"

definition example_world_after :: world where
  "example_world_after =
     example_world\<lparr> r2 := [js ''k-a.png'' \<mapsto> [137, 80, 78, 71]],
                    db := (db example_world)\<lparr> media_rows := [example_media_row] \<rparr> \<rparr>"


text \<open>An import task in native mode for this archive (which has no \<^verbatim>\<open>posts/\<close>
  directory), and an export task for drafts (of which the store has none).\<close>

definition example_import :: ImportWorkflowParams where
  "example_import = \<lparr> imp_taskId = js ''t1'', imp_r2Key = js ''imports/t1.zip'',
                       imp_mode = Native \<rparr>"

definition example_export :: ExportWorkflowParams where
  "example_export = \<lparr> exp_taskId = js ''t2'', exp_postIds = None,
                       exp_status = Some (js ''draft'') \<rparr>"

definition example_world_zip :: world where
  "example_world_zip = example_world\<lparr> r2 := [js ''imports/t1.zip'' \<mapsto> [80, 75]] \<rparr>"

section \<open>Properties\<close>

subsection \<open>Splitting and joining\<close>

lemma split_on_nonempty: "split_on sep s \<noteq> []"
  by (induction s) (auto split: list.splits)

lemma join_append_one:
  "xs \<noteq> [] \<Longrightarrow> join sep (xs @ [y]) = join sep xs @ sep @ y"
  by (induction sep xs rule: join.induct) auto

lemma join_split_on: "join [sep] (split_on sep s) = s"
proof (induction s)
  case Nil
  show ?case by simp
next
  case (Cons c cs)
  show ?case
  proof (cases "c = sep")
    case True
    with Cons split_on_nonempty [of sep cs] show ?thesis
      by (cases "split_on sep cs") auto
  next
    case False
    with Cons split_on_nonempty [of sep cs] show ?thesis
      by (cases "split_on sep cs"; cases "tl (split_on sep cs)") auto
  qed
qed

lemma resolve_segments_foldl:
  "resolve_segments parts segs = foldl spec_segment_step parts segs"
  by (induction segs arbitrary: parts) (simp_all add: spec_segment_step_def)

lemma js_eq_iff: "js a = js b \<longleftrightarrow> a = b"
  by (simp add: js_def inj_map_eq_map inj_of_char)

lemma resolve_segments_plain:
  "\<forall>seg \<in> set segs. seg \<noteq> js ''..'' \<and> seg \<noteq> js ''.'' \<Longrightarrow>
   resolve_segments parts segs = parts @ segs"
  by (induction segs arbitrary: parts) simp_all

lemma join_append:
  "xs \<noteq> [] \<Longrightarrow> ys \<noteq> [] \<Longrightarrow> join sep (xs @ ys) = join sep xs @ sep @ join sep ys"
proof (induction ys arbitrary: xs rule: rev_induct)
  case Nil
  then show ?case by simp
next
  case (snoc y ys)
  show ?case
  proof (cases "ys = []")
    case True
    with snoc.prems show ?thesis by (simp add: join_append_one)
  next
    case False
    with snoc.prems have "xs @ ys \<noteq> []" by simp
    then have "join sep ((xs @ ys) @ [y]) = join sep (xs @ ys) @ sep @ y"
      by (rule join_append_one)
    also have "join sep (xs @ ys) = join sep xs @ sep @ join sep ys"
      using snoc.IH snoc.prems(1) False by blast
    also have "(join sep xs @ sep @ join sep ys) @ sep @ y = join sep xs @ sep @ join sep (ys @ [y])"
      using False by (simp add: join_append_one)
    finally show ?thesis by simp
  qed
qed

subsection \<open>Relative path resolution\<close>

text \<open>
  Claim C6. \<^verbatim>\<open>resolveRelativePath\<close> strips one leading \<^verbatim>\<open>./\<close> from the reference; with
  an empty base the result is the stripped reference; otherwise each \<^verbatim>\<open>/\<close>-separated
  segment of the reference acts on the segments of the base: \<^verbatim>\<open>..\<close> pops the last one,
  \<^verbatim>\<open>.\<close> does nothing, any other segment is appended. So a reference without \<^verbatim>\<open>..\<close>
  and \<^verbatim>\<open>.\<close> segments is appended to a non-empty base after a \<^verbatim>\<open>/\<close>. In particular
  \<^verbatim>\<open>resolveRelativePath("a/b/c", "../../img.jpg") = "a/img.jpg"\<close> and
  \<^verbatim>\<open>resolveRelativePath("", "./x.jpg") = "x.jpg"\<close>.
\<close>

theorem resolveRelativePath_spec:
  "resolveRelativePath base reference = spec_resolve base reference \<and>
   resolveRelativePath [] reference = strip_dot_slash reference \<and>
   (base \<noteq> [] \<and>
    (\<forall>seg \<in> set (split_on 47 (strip_dot_slash reference)).
        seg \<noteq> js ''..'' \<and> seg \<noteq> js ''.'') \<longrightarrow>
    resolveRelativePath base reference = base @ js ''/'' @ strip_dot_slash reference) \<and>
   resolveRelativePath (js ''a/b/c'') (js ''../../img.jpg'') = js ''a/img.jpg'' \<and>
   resolveRelativePath (js []) (js ''./x.jpg'') = js ''x.jpg''"
proof (intro conjI impI)
  show "resolveRelativePath base reference = spec_resolve base reference"
    by (simp add: resolveRelativePath_def spec_resolve_def resolve_segments_foldl Let_def)
  show "resolveRelativePath [] reference = strip_dot_slash reference"
    by (simp add: resolveRelativePath_def)
  show "resolveRelativePath (js ''a/b/c'') (js ''../../img.jpg'') = js ''a/img.jpg''"
    by (simp add: resolveRelativePath_def strip_dot_slash_def startsWith_def js_def)
  show "resolveRelativePath (js []) (js ''./x.jpg'') = js ''x.jpg''"
    by (simp add: resolveRelativePath_def strip_dot_slash_def startsWith_def js_def)
next
  assume hyp: "base \<noteq> [] \<and>
    (\<forall>seg \<in> set (split_on 47 (strip_dot_slash reference)).
        seg \<noteq> js ''..'' \<and> seg \<noteq> js ''.'')"
  have "join [47] (split_on 47 base @ split_on 47 (strip_dot_slash reference))
        = join [47] (split_on 47 base) @ [47] @ join [47] (split_on 47 (strip_dot_slash reference))"
    by (rule join_append) (rule split_on_nonempty)+
  then show "resolveRelativePath base reference = base @ js ''/'' @ strip_dot_slash reference"
    using hyp
    by (simp add: resolveRelativePath_def resolve_segments_plain join_split_on Let_def js_def)
qed

theorem resolveRelativePath_spec_witness:
  "js ''posts'' \<noteq> [] \<and>
   split_on 47 (strip_dot_slash (js ''./images/a.jpg'')) = [js ''images'', js ''a.jpg''] \<and>
   resolveRelativePath (js ''posts'') (js ''./images/a.jpg'') = js ''posts/images/a.jpg''"
proof -
  have segs: "split_on 47 (strip_dot_slash (js ''./images/a.jpg'')) = [js ''images'', js ''a.jpg'']"
    by (simp add: strip_dot_slash_def startsWith_def js_def)
  have h: "js ''posts'' \<noteq> [] \<and>
     (\<forall>seg \<in> set (split_on 47 (strip_dot_slash (js ''./images/a.jpg''))).
                   seg \<noteq> js ''..'' \<and> seg \<noteq> js ''.'')"
    unfolding segs by (simp add: js_def)
  with resolveRelativePath_spec [of "js ''posts''" "js ''./images/a.jpg''"]
  have "resolveRelativePath (js ''posts'') (js ''./images/a.jpg'')
          = js ''posts'' @ js ''/'' @ strip_dot_slash (js ''./images/a.jpg'')"
    by blast
  also have "\<dots> = js ''posts/images/a.jpg''"
    by (simp add: strip_dot_slash_def startsWith_def js_def)
  finally show ?thesis using h segs by blast
qed

subsection \<open>Empty archive entries\<close>

lemma map_of_without_path: "map_of (without_path files path) path = None"
  by (induction files) (auto simp: without_path_def)

text \<open>
  An entry whose payload has length zero (the decoder turns no bytes into the empty
  string) reads as the empty string, and as \<^verbatim>\<open>null\<close> through both JSON readers, with
  nothing logged. This holds for every path, since an entry comes before an inherited
  member of the same name.
\<close>

lemma empty_file_reads:
  assumes "map_of files path = Some []" and "strFromU8 (Payload []) = Inr []"
  shows "readTextFile strFromU8 files path = Inr (Some [])"
    and "readJsonFile strFromU8 json_parse files path = Inr None"
    and "readValidatedJsonFile strFromU8 json_parse safeParse files path = (Inr None, [])"
  using assms
  by (simp_all add: readTextFile_def readJsonFile_def readValidatedJsonFile_def no_text_def
      has_property_def get_property_def)

text \<open>
  A missing file reads as \<^verbatim>\<open>null\<close> through all three readers when its path is not the
  name of a member of \<^verbatim>\<open>Object.prototype\<close>: for these paths the JSON readers do not
  tell an empty file from a missing one.
\<close>

lemma missing_file_reads:
  assumes "map_of object_prototype path = None"
  shows "readTextFile strFromU8 (without_path files path) path = Inr None"
    and "readJsonFile strFromU8 json_parse (without_path files path) path = Inr None"
    and "readValidatedJsonFile strFromU8 json_parse safeParse (without_path files path) path
           = (Inr None, [])"
  using assms
  by (simp_all add: readTextFile_def readJsonFile_def readValidatedJsonFile_def no_text_def
      has_property_def get_property_def map_of_without_path)

lemma empty_file_as_missing:
  assumes "map_of files path = Some []" and "strFromU8 (Payload []) = Inr []"
    and "map_of object_prototype path = None"
  shows "readJsonFile strFromU8 json_parse (without_path files path) path
           = readJsonFile strFromU8 json_parse files path"
    and "readValidatedJsonFile strFromU8 json_parse safeParse (without_path files path) path
           = readValidatedJsonFile strFromU8 json_parse safeParse files path"
  using assms by (simp_all add: empty_file_reads missing_file_reads)

text \<open>
  A missing file never reads as \<^verbatim>\<open>null\<close> when its path is the name of a member of
  \<^verbatim>\<open>Object.prototype\<close>: \<^verbatim>\<open>path in files\<close> holds, and the decoder is handed the
  member.
\<close>

lemma missing_member_not_null:
  assumes "map_of object_prototype path = Some n"
  shows "readTextFile strFromU8 (without_path files path) path \<noteq> Inr None"
  using assms
  by (simp add: readTextFile_def has_property_def get_property_def map_of_without_path
      split: sum.splits)



subsection \<open>Front matter normalisation\<close>

lemma field_empty: "field Map.empty k = JUndefined"
  by (simp add: field_def)

lemma field_upd: "field (m(js k \<mapsto> v)) k' = (if k = k' then v else field m k')"
  by (simp add: field_def js_eq_iff)

lemma field_map_title:
  "field (map_title data m) k =
     (if k = ''title'' \<and> is_string (field data ''title'') then field data ''title'' else field m k)"
  by (simp add: map_title_def field_upd)

lemma field_map_slug_other:
  "k \<noteq> ''slug'' \<Longrightarrow> field (map_slug data m) k = field m k"
  by (simp add: map_slug_def field_upd split: jsval.splits)

lemma field_map_slug:
  "field (map_slug data m) ''slug'' =
     (case nullish (nullish (field data ''slug'') (field data ''url'')) (field data ''permalink'') of
        JStr s \<Rightarrow> JStr (slug_of_source s)
      | v \<Rightarrow> field m ''slug'')"
  by (simp add: map_slug_def field_upd split: jsval.splits)

lemma field_map_summary:
  "field (map_summary data m) k =
     (let src = nullish (nullish (field data ''summary'') (field data ''description''))
          (field data ''excerpt'')
      in if k = ''summary'' \<and> is_string src then src else field m k)"
  by (simp add: map_summary_def field_upd Let_def)

lemma field_map_status:
  "field (map_status data m) k =
     (if k = ''status'' then
        (if field data ''draft'' = JBool True then JStr (js ''draft'')
         else if is_string (field data ''status'') then field data ''status''
         else JStr (js ''published''))
      else field m k)"
  by (simp add: map_status_def field_upd)

lemma field_map_readTime:
  "field (map_readTime data m) k =
     (if k = ''readTimeInMinutes'' \<and> is_number (field data ''readTimeInMinutes'')
      then field data ''readTimeInMinutes'' else field m k)"
  by (simp add: map_readTime_def field_upd)

lemma field_map_tags_other:
  "k \<noteq> ''tags'' \<Longrightarrow> field (map_tags data m) k = field m k"
  by (simp add: map_tags_def field_upd split: jsval.splits)

lemma field_map_tags:
  "field (map_tags data m) ''tags'' =
     (case nullish (field data ''tags'') (field data ''categories'') of
        JArr vs \<Rightarrow> JArr (filter is_string vs)
      | v \<Rightarrow> field m ''tags'')"
  by (simp add: map_tags_def field_upd split: jsval.splits)

lemma toISOString_Inr: "source \<noteq> JDate None \<Longrightarrow> toISOString P source = Inr (iso_value P source)"
  by (cases "(P, source)" rule: toISOString.cases) (auto simp: iso_value_def split: option.splits)

lemma set_date_Inr:
  "source \<noteq> JDate None \<Longrightarrow>
   set_date P key source m = Inr (if truthy source then m(js key \<mapsto> iso_value P source) else m)"
  by (simp add: set_date_def toISOString_Inr)

lemma set_date_Inl:
  "set_date P key (JDate None) m = Inl (Error (js ''Invalid time value''))"
  by (simp add: set_date_def)

lemma those_strings: "those (map z_string (filter is_string vs)) = Some (strings_of vs)"
  by (induction vs rule: strings_of.induct) auto

lemma field_put_date:
  "field (put_date P key src m) k = (if k = key \<and> truthy src then iso_value P src else field m k)"
  by (simp add: put_date_def field_upd)

lemma normalize_mapped_of:
  "dates_convertible data \<Longrightarrow>
   normalizeFrontmatter P data = Inr (PostFrontmatterSchema_safeParse P (mapped_of P data))"
  by (simp add: normalizeFrontmatter_def dates_convertible_def set_date_Inr mapped_of_def
      put_date_def)

lemma normalize_throws:
  "\<not> dates_convertible data \<Longrightarrow>
   normalizeFrontmatter P data = Inl (Error (js ''Invalid time value''))"
proof -
  assume nc: "\<not> dates_convertible data"
  show ?thesis
  proof (cases "dateSource data = JDate None")
    case True
    then show ?thesis by (simp add: normalizeFrontmatter_def set_date_Inl)
  next
    case d: False
    show ?thesis
    proof (cases "createdSource data = JDate None")
      case True
      with d show ?thesis by (simp add: normalizeFrontmatter_def set_date_Inl set_date_Inr)
    next
      case c: False
      with d nc have "updatedSource data = JDate None" by (simp add: dates_convertible_def)
      with d c show ?thesis by (simp add: normalizeFrontmatter_def set_date_Inl set_date_Inr)
    qed
  qed
qed

lemmas field_maps = field_map_title field_map_slug field_map_slug_other field_map_summary
  field_map_status field_put_date field_map_readTime field_map_tags field_map_tags_other
  field_empty

lemma mapped_title:
  "z_string (field (mapped_of P data) ''title'') =
     (case field data ''title'' of JStr s \<Rightarrow> Some s | v \<Rightarrow> None)"
  by (simp add: mapped_of_def field_maps split: jsval.splits)

lemma mapped_slug:
  "z_default z_string [] (field (mapped_of P data) ''slug'') =
     Some (case nullish (nullish (field data ''slug'') (field data ''url''))
                 (field data ''permalink'') of
            JStr s \<Rightarrow> slug_of_source s | v \<Rightarrow> [])"
  by (simp add: mapped_of_def field_maps z_default_def split: jsval.splits)

lemma mapped_summary:
  "z_optional_nullable z_string (field (mapped_of P data) ''summary'') =
     Some (case nullish (nullish (field data ''summary'') (field data ''description''))
                 (field data ''excerpt'') of
            JStr s \<Rightarrow> Value s | v \<Rightarrow> Undefined)"
  by (simp add: mapped_of_def field_maps z_optional_nullable_def Let_def split: jsval.splits)

lemma mapped_status:
  "z_default (z_enum POST_STATUSES) (js ''published'') (field (mapped_of P data) ''status'') =
     (if status_valid data then
        Some (if field data ''draft'' = JBool True then js ''draft''
              else (case field data ''status'' of JStr s \<Rightarrow> s | v \<Rightarrow> js ''published''))
      else None)"
  by (simp add: mapped_of_def field_maps z_default_def status_valid_def POST_STATUSES_def
      split: jsval.splits)

lemma iso_value_field:
  "src \<noteq> JDate None \<Longrightarrow>
   z_optional_nullable z_string (if truthy src then iso_value P src else JUndefined)
     = Some (iso_field P src)"
  by (cases "(P, src)" rule: toISOString.cases)
     (auto simp: iso_value_def iso_field_def z_optional_nullable_def split: option.splits)

lemma field_mapped_publishedAt:
  "field (mapped_of P data) ''publishedAt'' =
     (if truthy (dateSource data) then iso_value P (dateSource data) else JUndefined)"
  by (simp add: mapped_of_def field_maps)

lemma mapped_publishedAt:
  "dates_convertible data \<Longrightarrow>
   z_optional_nullable z_string (field (mapped_of P data) ''publishedAt'')
     = Some (iso_field P (dateSource data))"
  unfolding field_mapped_publishedAt
  by (rule iso_value_field) (simp add: dates_convertible_def)

lemma field_mapped_createdAt:
  "field (mapped_of P data) ''createdAt'' =
     (if truthy (createdSource data) then iso_value P (createdSource data) else JUndefined)"
  by (simp add: mapped_of_def field_maps)

lemma mapped_createdAt:
  "dates_convertible data \<Longrightarrow>
   z_optional_nullable z_string (field (mapped_of P data) ''createdAt'')
     = Some (iso_field P (createdSource data))"
  unfolding field_mapped_createdAt
  by (rule iso_value_field) (simp add: dates_convertible_def)

lemma field_mapped_updatedAt:
  "field (mapped_of P data) ''updatedAt'' =
     (if truthy (updatedSource data) then iso_value P (updatedSource data) else JUndefined)"
  by (simp add: mapped_of_def field_maps)

lemma mapped_updatedAt:
  "dates_convertible data \<Longrightarrow>
   z_optional_nullable z_string (field (mapped_of P data) ''updatedAt'')
     = Some (iso_field P (updatedSource data))"
  unfolding field_mapped_updatedAt
  by (rule iso_value_field) (simp add: dates_convertible_def)

lemma mapped_readTime:
  "z_default (z_number (z_number_ok P)) (Finite 1) (field (mapped_of P data) ''readTimeInMinutes'') =
     (if readTime_valid P data then
        Some (case field data ''readTimeInMinutes'' of JNum n \<Rightarrow> n | v \<Rightarrow> Finite 1)
      else None)"
  by (simp add: mapped_of_def field_maps z_default_def readTime_valid_def split: jsval.splits)

lemma mapped_tags:
  "z_default (z_array z_string) [] (field (mapped_of P data) ''tags'') =
     Some (case nullish (field data ''tags'') (field data ''categories'') of
            JArr vs \<Rightarrow> strings_of vs | v \<Rightarrow> [])"
  by (simp add: mapped_of_def field_maps z_default_def those_strings split: jsval.splits)

lemma normalizeFrontmatter_eval:
  "normalizeFrontmatter P data =
     (if dates_convertible data then
        (if has_title data \<and> status_valid data \<and> readTime_valid P data
         then Inr (Some (normalized_record P data)) else Inr None)
      else Inl (Error (js ''Invalid time value'')))"
proof (cases "dates_convertible data")
  case False
  then show ?thesis by (simp add: normalize_throws)
next
  case True
  then show ?thesis
    by (simp add: normalize_mapped_of PostFrontmatterSchema_safeParse_def mapped_title
        mapped_slug mapped_summary mapped_status mapped_publishedAt mapped_createdAt
        mapped_updatedAt mapped_readTime mapped_tags has_title_def normalized_record_def
        split: jsval.splits)
qed

lemma split_on_no_sep: "y \<in> set (split_on sep s) \<Longrightarrow> sep \<notin> set y"
proof (induction s arbitrary: y)
  case Nil
  then show ?case by simp
next
  case (Cons c cs)
  show ?case
  proof (cases "c = sep")
    case True
    with Cons show ?thesis by auto
  next
    case False
    obtain w ws where ws: "split_on sep cs = w # ws"
      using split_on_nonempty [of sep cs] by (cases "split_on sep cs") auto
    with Cons.prems False have "y = c # w \<or> y \<in> set ws" by auto
    then show ?thesis
    proof
      assume "y = c # w"
      moreover have "sep \<notin> set w" using Cons.IH [of w] ws by simp
      ultimately show ?thesis using False by auto
    next
      assume "y \<in> set ws"
      then show ?thesis using Cons.IH [of y] ws by simp
    qed
  qed
qed

lemma split_on_plain: "sep \<notin> set x \<Longrightarrow> split_on sep x = [x]"
  by (induction x) auto

lemma slug_of_source_idem: "slug_of_source (slug_of_source s) = slug_of_source s"
proof (cases "filter (\<lambda>seg. seg \<noteq> []) (split_on 47 s) = []")
  case True
  then show ?thesis by (simp add: slug_of_source_def)
next
  case False
  define x where "x = last (filter (\<lambda>seg. seg \<noteq> []) (split_on 47 s))"
  have "x \<in> set (filter (\<lambda>seg. seg \<noteq> []) (split_on 47 s))"
    unfolding x_def using False by (rule last_in_set)
  then have x: "x \<noteq> []" "47 \<notin> set x"
    using split_on_no_sep [of x 47 s] by auto
  have "slug_of_source s = x" using False by (simp add: slug_of_source_def x_def)
  moreover have "slug_of_source x = x"
    using x by (simp add: slug_of_source_def split_on_plain)
  ultimately show ?thesis by simp
qed

lemma slug_of_source_empty: "slug_of_source [] = []"
  by (simp add: slug_of_source_def)

lemma strings_of_map_JStr: "strings_of (map JStr ts) = ts"
  by (induction ts) auto

lemma iso_field_cases:
  "iso_field P src = Undefined \<or> (\<exists>t. iso_field P src = Value (date_iso P t))"
  by (cases "(P, src)" rule: toISOString.cases)
     (auto simp: iso_field_def split: option.splits)

lemma iso_field_fixed:
  assumes "\<forall>t. date_parse P (date_iso P t) = Some t" and "\<forall>t. date_iso P t \<noteq> []"
  shows "iso_field P (optnull_val (iso_field P src)) = iso_field P src"
  using iso_field_cases [of P src] assms
  by (auto simp: iso_field_def)

lemma field_frontmatter_fields:
  "field (frontmatter_fields m) k =
     (if k = ''title'' then JStr (title m)
      else if k = ''slug'' then JStr (slug m)
      else if k = ''summary'' then optnull_val (summary m)
      else if k = ''status'' then JStr (status m)
      else if k = ''publishedAt'' then optnull_val (publishedAt m)
      else if k = ''createdAt'' then optnull_val (createdAt m)
      else if k = ''updatedAt'' then optnull_val (updatedAt m)
      else if k = ''readTimeInMinutes'' then JNum (readTimeInMinutes m)
      else if k = ''tags'' then JArr (map JStr (tags m))
      else JUndefined)"
  by (simp add: frontmatter_fields_def field_def js_eq_iff)

lemma nullish_undefined [simp]: "nullish a JUndefined = (if a = JNull then JUndefined else a)"
  by (cases a) auto

lemma optnull_val_not_date [simp]: "optnull_val x \<noteq> JDate d"
  by (cases x) auto

lemma normalized_status_valid:
  "status_valid r \<Longrightarrow> status (normalized_record P r) \<in> set POST_STATUSES"
  by (auto simp: status_valid_def normalized_record_def POST_STATUSES_def split: jsval.splits if_splits)

lemma normalized_readTime_valid:
  "readTime_valid P r \<Longrightarrow> z_number_ok P (Finite 1) \<Longrightarrow>
   z_number_ok P (readTimeInMinutes (normalized_record P r))"
  by (auto simp: readTime_valid_def normalized_record_def split: jsval.splits)

lemma normalized_summary_cases:
  "summary (normalized_record P r) = Undefined \<or> (\<exists>s. summary (normalized_record P r) = Value s)"
  by (auto simp: normalized_record_def split: jsval.splits)

lemma normalized_slug_fixed:
  "slug_of_source (slug (normalized_record P r)) = slug (normalized_record P r)"
  by (auto simp: normalized_record_def slug_of_source_idem slug_of_source_empty split: jsval.splits)

lemma example_platform_simps:
  "date_parse example_platform [sg, n] = Some (if sg = 45 then - int n else int n)"
  "date_iso example_platform t = [if t < 0 then 45 else 43, nat \<bar>t\<bar>]"
  "z_number_ok example_platform x = (x \<noteq> NaN)"
  by (simp_all add: example_platform_def)

lemma example_platform_dates:
  "\<forall>t. date_parse example_platform (date_iso example_platform t) = Some t"
  "\<forall>t. date_iso example_platform t \<noteq> []"
  "z_number_ok example_platform (Finite 1)"
  by (auto simp: example_platform_simps)

lemma field_simps_lit:
  "field Map.empty k = JUndefined"
  "field (m(js k' \<mapsto> v)) k = (if k' = k then v else field m k)"
  by (simp_all add: field_def js_eq_iff)

lemmas record_eval = has_title_def status_valid_def readTime_valid_def
      dates_convertible_def dateSource_def createdSource_def updatedSource_def
      field_simps_lit POST_STATUSES_def js_eq_iff normalized_record_def iso_field_def

subsection \<open>Claims about normalisation\<close>

text \<open>
  Claim C2 says that \<^verbatim>\<open>normalizeFrontmatter\<close> returns \<^verbatim>\<open>null\<close> only if no usable title
  exists. A record with a title and a status outside the allowed statuses is a
  counterexample: validation rejects it.
\<close>

theorem normalize_null_with_title:
  "has_title [js ''title'' \<mapsto> JStr (js ''Hello''), js ''status'' \<mapsto> JStr (js ''archived'')] \<and>
   normalizeFrontmatter example_platform
     [js ''title'' \<mapsto> JStr (js ''Hello''), js ''status'' \<mapsto> JStr (js ''archived'')] = Inr None"
  by (simp add: normalizeFrontmatter_eval has_title_def status_valid_def readTime_valid_def
      dates_convertible_def dateSource_def createdSource_def updatedSource_def
      field_simps_lit POST_STATUSES_def js_eq_iff)

text \<open>
  Claim C2, amended. \<^verbatim>\<open>normalizeFrontmatter\<close> returns \<^verbatim>\<open>null\<close> exactly when no date
  conversion throws and validation of the mapped record fails: there is no string
  title, or (without \<^verbatim>\<open>draft: true\<close>) the status is a string outside the allowed
  statuses, or \<^verbatim>\<open>readTimeInMinutes\<close> is a number that the schema rejects. Whenever a
  string title exists and these fields validate, the result is a canonical record with
  that title.
\<close>

theorem normalize_null_iff:
  "(normalizeFrontmatter P data = Inr None) =
     (dates_convertible data \<and>
      \<not> (has_title data \<and> status_valid data \<and> readTime_valid P data)) \<and>
   (has_title data \<and> status_valid data \<and> readTime_valid P data \<and> dates_convertible data \<longrightarrow>
      (\<exists>m. normalizeFrontmatter P data = Inr (Some m) \<and>
           field data ''title'' = JStr (title m)))"
  by (auto simp: normalizeFrontmatter_eval has_title_def normalized_record_def split: jsval.splits)

theorem normalize_null_iff_witness:
  "normalizeFrontmatter example_platform
     [js ''title'' \<mapsto> JStr (js ''Hello''), js ''status'' \<mapsto> JStr (js ''draft'')]
   = Inr (Some \<lparr> title = js ''Hello'', slug = [], summary = Undefined, status = js ''draft'',
                  publishedAt = Undefined, createdAt = Undefined, updatedAt = Undefined,
                  readTimeInMinutes = Finite 1, tags = [] \<rparr>)"
proof -
  let ?r = "[js ''title'' \<mapsto> JStr (js ''Hello''), js ''status'' \<mapsto> JStr (js ''draft'')]"
  have "has_title ?r \<and> status_valid ?r \<and> readTime_valid example_platform ?r \<and> dates_convertible ?r"
    by (simp add: has_title_def status_valid_def readTime_valid_def
      dates_convertible_def dateSource_def createdSource_def updatedSource_def
      field_simps_lit POST_STATUSES_def js_eq_iff)
  with normalize_null_iff [of example_platform ?r]
  obtain m where m: "normalizeFrontmatter example_platform ?r = Inr (Some m)" by blast
  then have "m = normalized_record example_platform ?r"
    by (simp add: normalizeFrontmatter_eval split: if_splits)
  also have "\<dots> = \<lparr> title = js ''Hello'', slug = [], summary = Undefined, status = js ''draft'',
                  publishedAt = Undefined, createdAt = Undefined, updatedAt = Undefined,
                  readTimeInMinutes = Finite 1, tags = [] \<rparr>"
    by (simp add: normalized_record_def field_simps_lit iso_field_def dateSource_def
        createdSource_def updatedSource_def)
  finally show ?thesis using m by simp
qed

text \<open>
  Claim C4. Normalisation is idempotent: when \<^verbatim>\<open>normalizeFrontmatter(r)\<close> yields a
  canonical record \<^verbatim>\<open>m\<close>, normalising the fields of \<^verbatim>\<open>m\<close> yields \<^verbatim>\<open>m\<close> again. The
  platform is assumed to parse every string that \<^verbatim>\<open>toISOString\<close> produces back to the
  same time, to produce no empty string, and to accept the number 1.
\<close>

theorem normalize_idem:
  assumes parse_iso: "\<forall>t. date_parse P (date_iso P t) = Some t"
    and iso_nonempty: "\<forall>t. date_iso P t \<noteq> []"
    and one_ok: "z_number_ok P (Finite 1)"
    and first: "normalizeFrontmatter P r = Inr (Some m)"
  shows "normalizeFrontmatter P (frontmatter_fields m) = Inr (Some m)"
proof -
  from first have valid: "dates_convertible r" "has_title r" "status_valid r" "readTime_valid P r"
    and m: "m = normalized_record P r"
    by (auto simp: normalizeFrontmatter_eval split: if_splits)
  let ?f = "frontmatter_fields m"
  have sum: "summary m = Undefined \<or> (\<exists>s. summary m = Value s)"
    unfolding m by (rule normalized_summary_cases)
  have pa: "publishedAt m = iso_field P (dateSource r)"
    and ca: "createdAt m = iso_field P (createdSource r)"
    and ua: "updatedAt m = iso_field P (updatedSource r)"
    by (simp_all add: m normalized_record_def)
  have src: "dateSource ?f = optnull_val (publishedAt m)"
    "createdSource ?f = optnull_val (createdAt m)"
    "updatedSource ?f = optnull_val (updatedAt m)"
    using iso_field_cases [of P "dateSource r"] iso_field_cases [of P "createdSource r"]
      iso_field_cases [of P "updatedSource r"]
    by (auto simp: dateSource_def createdSource_def updatedSource_def field_frontmatter_fields
        pa ca ua)
  have dc: "dates_convertible ?f" by (simp add: dates_convertible_def src)
  have ht: "has_title ?f" by (simp add: has_title_def field_frontmatter_fields)
  have sv: "status_valid ?f"
    using normalized_status_valid [OF valid(3), of P]
    by (simp add: status_valid_def field_frontmatter_fields m)
  have rv: "readTime_valid P ?f"
    using normalized_readTime_valid [OF valid(4) one_ok]
    by (simp add: readTime_valid_def field_frontmatter_fields m)
  have "normalized_record P ?f = m"
  proof -
    have "title (normalized_record P ?f) = title m"
      by (simp add: normalized_record_def field_frontmatter_fields)
    moreover have "slug (normalized_record P ?f) = slug m"
    proof -
      have "slug_of_source (slug m) = slug m"
        unfolding m by (rule normalized_slug_fixed)
      then show ?thesis by (simp add: normalized_record_def field_frontmatter_fields)
    qed
    moreover have "summary (normalized_record P ?f) = summary m"
      using sum by (auto simp: normalized_record_def field_frontmatter_fields)
    moreover have "status (normalized_record P ?f) = status m"
      by (simp add: normalized_record_def field_frontmatter_fields)
    moreover have "publishedAt (normalized_record P ?f) = publishedAt m"
      using iso_field_fixed [OF parse_iso iso_nonempty, of "dateSource r"]
      by (simp add: normalized_record_def src pa)
    moreover have "createdAt (normalized_record P ?f) = createdAt m"
      using iso_field_fixed [OF parse_iso iso_nonempty, of "createdSource r"]
      by (simp add: normalized_record_def src ca)
    moreover have "updatedAt (normalized_record P ?f) = updatedAt m"
      using iso_field_fixed [OF parse_iso iso_nonempty, of "updatedSource r"]
      by (simp add: normalized_record_def src ua)
    moreover have "readTimeInMinutes (normalized_record P ?f) = readTimeInMinutes m"
      by (simp add: normalized_record_def field_frontmatter_fields)
    moreover have "tags (normalized_record P ?f) = tags m"
      by (simp add: normalized_record_def field_frontmatter_fields strings_of_map_JStr)
    ultimately show ?thesis by (simp add: PostFrontmatter.equality)
  qed
  with dc ht sv rv show ?thesis by (simp add: normalizeFrontmatter_eval)
qed

text \<open>A Hugo-style record with a date, normalised once and then again.\<close>

theorem normalize_idem_witness:
  "normalizeFrontmatter example_platform
     [js ''title'' \<mapsto> JStr (js ''Post''), js ''url'' \<mapsto> JStr (js ''/posts/my-post/''),
      js ''date'' \<mapsto> JDate (Some 1705276800000), js ''tags'' \<mapsto> JArr [JStr (js ''a''), JNull]]
     = Inr (Some \<lparr> title = js ''Post'', slug = js ''my-post'', summary = Undefined,
                    status = js ''published'',
                    publishedAt = Value [43, 1705276800000], createdAt = Value [43, 1705276800000],
                    updatedAt = Undefined, readTimeInMinutes = Finite 1, tags = [js ''a''] \<rparr>) \<and>
   normalizeFrontmatter example_platform
     (frontmatter_fields
        \<lparr> title = js ''Post'', slug = js ''my-post'', summary = Undefined,
          status = js ''published'',
          publishedAt = Value [43, 1705276800000], createdAt = Value [43, 1705276800000],
          updatedAt = Undefined, readTimeInMinutes = Finite 1, tags = [js ''a''] \<rparr>)
     = Inr (Some \<lparr> title = js ''Post'', slug = js ''my-post'', summary = Undefined,
                    status = js ''published'',
                    publishedAt = Value [43, 1705276800000], createdAt = Value [43, 1705276800000],
                    updatedAt = Undefined, readTimeInMinutes = Finite 1, tags = [js ''a''] \<rparr>)"
proof -
  let ?r = "[js ''title'' \<mapsto> JStr (js ''Post''), js ''url'' \<mapsto> JStr (js ''/posts/my-post/''),
      js ''date'' \<mapsto> JDate (Some 1705276800000), js ''tags'' \<mapsto> JArr [JStr (js ''a''), JNull]]"
  let ?m = "\<lparr> title = js ''Post'', slug = js ''my-post'', summary = Undefined,
          status = js ''published'',
          publishedAt = Value [43, 1705276800000], createdAt = Value [43, 1705276800000],
          updatedAt = Undefined, readTimeInMinutes = Finite 1, tags = [js ''a''] \<rparr>"
  have slug: "slug_of_source (js ''/posts/my-post/'') = js ''my-post''"
    by (simp add: slug_of_source_def js_def)
  have first: "normalizeFrontmatter example_platform ?r = Inr (Some ?m)"
    by (simp add: normalizeFrontmatter_eval record_eval slug example_platform_simps)
  from normalize_idem [OF example_platform_dates first] first show ?thesis by simp
qed

text \<open>
  Claim C5. For every record with a title: with \<^verbatim>\<open>draft: true\<close> the normalised status
  is \<^verbatim>\<open>draft\<close>, also when \<^verbatim>\<open>status: "published"\<close> is present; with
  \<^verbatim>\<open>categories: [A, B]\<close> and no \<^verbatim>\<open>tags\<close> the normalised tags are \<^verbatim>\<open>[A, B]\<close>. The
  two records of the specification normalise to the records shown.
\<close>

theorem dialect_mapping:
  "(has_title r \<and> field r ''draft'' = JBool True \<and> normalizeFrontmatter P r = Inr (Some m)
      \<longrightarrow> status m = js ''draft'') \<and>
   (has_title r \<and> field r ''tags'' = JUndefined \<and> field r ''categories'' = JArr [JStr a, JStr b]
      \<and> normalizeFrontmatter P r = Inr (Some m)
      \<longrightarrow> tags m = [a, b]) \<and>
   normalizeFrontmatter P
     [js ''title'' \<mapsto> JStr t, js ''draft'' \<mapsto> JBool True, js ''status'' \<mapsto> JStr (js ''published'')]
     = Inr (Some \<lparr> title = t, slug = [], summary = Undefined, status = js ''draft'',
                    publishedAt = Undefined, createdAt = Undefined, updatedAt = Undefined,
                    readTimeInMinutes = Finite 1, tags = [] \<rparr>) \<and>
   normalizeFrontmatter P
     [js ''title'' \<mapsto> JStr t, js ''categories'' \<mapsto> JArr [JStr a, JStr b]]
     = Inr (Some \<lparr> title = t, slug = [], summary = Undefined, status = js ''published'',
                    publishedAt = Undefined, createdAt = Undefined, updatedAt = Undefined,
                    readTimeInMinutes = Finite 1, tags = [a, b] \<rparr>)"
proof (intro conjI impI)
  assume "has_title r \<and> field r ''draft'' = JBool True \<and> normalizeFrontmatter P r = Inr (Some m)"
  then show "status m = js ''draft''"
    by (auto simp: normalizeFrontmatter_eval normalized_record_def split: if_splits)
next
  assume "has_title r \<and> field r ''tags'' = JUndefined \<and> field r ''categories'' = JArr [JStr a, JStr b]
      \<and> normalizeFrontmatter P r = Inr (Some m)"
  then show "tags m = [a, b]"
    by (auto simp: normalizeFrontmatter_eval normalized_record_def split: if_splits)
next
  show "normalizeFrontmatter P
     [js ''title'' \<mapsto> JStr t, js ''draft'' \<mapsto> JBool True, js ''status'' \<mapsto> JStr (js ''published'')]
     = Inr (Some \<lparr> title = t, slug = [], summary = Undefined, status = js ''draft'',
                    publishedAt = Undefined, createdAt = Undefined, updatedAt = Undefined,
                    readTimeInMinutes = Finite 1, tags = [] \<rparr>)"
    by (simp add: normalizeFrontmatter_eval record_eval)
next
  show "normalizeFrontmatter P
     [js ''title'' \<mapsto> JStr t, js ''categories'' \<mapsto> JArr [JStr a, JStr b]]
     = Inr (Some \<lparr> title = t, slug = [], summary = Undefined, status = js ''published'',
                    publishedAt = Undefined, createdAt = Undefined, updatedAt = Undefined,
                    readTimeInMinutes = Finite 1, tags = [a, b] \<rparr>)"
    by (simp add: normalizeFrontmatter_eval record_eval)
qed

text \<open>A Hugo-style record: draft and published at once, categories and a tag-less header.\<close>

theorem dialect_mapping_witness:
  "normalizeFrontmatter example_platform
     [js ''title'' \<mapsto> JStr (js ''Post''), js ''draft'' \<mapsto> JBool True,
      js ''status'' \<mapsto> JStr (js ''published''),
      js ''categories'' \<mapsto> JArr [JStr (js ''A''), JStr (js ''B'')]]
     = Inr (Some \<lparr> title = js ''Post'', slug = [], summary = Undefined, status = js ''draft'',
                    publishedAt = Undefined, createdAt = Undefined, updatedAt = Undefined,
                    readTimeInMinutes = Finite 1, tags = [js ''A'', js ''B''] \<rparr>)"
proof -
  let ?r = "[js ''title'' \<mapsto> JStr (js ''Post''), js ''draft'' \<mapsto> JBool True,
      js ''status'' \<mapsto> JStr (js ''published''),
      js ''categories'' \<mapsto> JArr [JStr (js ''A''), JStr (js ''B'')]]"
  have r: "has_title ?r" "field ?r ''draft'' = JBool True" "field ?r ''tags'' = JUndefined"
    "field ?r ''categories'' = JArr [JStr (js ''A''), JStr (js ''B'')]"
    by (simp_all add: record_eval)
  obtain m where m: "normalizeFrontmatter example_platform ?r = Inr (Some m)"
    and m_eq: "m = normalized_record example_platform ?r"
    by (simp add: normalizeFrontmatter_eval record_eval)
  from dialect_mapping [of ?r example_platform m "js ''A''" "js ''B''"] r m
  have "status m = js ''draft''" "tags m = [js ''A'', js ''B'']" by blast+
  moreover have "title m = js ''Post''" "slug m = []" "summary m = Undefined"
    "publishedAt m = Undefined" "createdAt m = Undefined" "updatedAt m = Undefined"
    "readTimeInMinutes m = Finite 1"
    by (simp_all add: m_eq record_eval)
  ultimately have "m = \<lparr> title = js ''Post'', slug = [], summary = Undefined, status = js ''draft'',
                    publishedAt = Undefined, createdAt = Undefined, updatedAt = Undefined,
                    readTimeInMinutes = Finite 1, tags = [js ''A'', js ''B''] \<rparr>"
    by (simp add: PostFrontmatter.equality)
  with m show ?thesis by simp
qed

subsection \<open>Markdown serializer\<close>

lemma dropWhile_keeps:
  "s \<noteq> [] \<Longrightarrow> \<not> P (hd s) \<Longrightarrow> \<exists>pre1. dropWhile P (pre @ s @ post) = pre1 @ s @ post"
proof (induction pre)
  case Nil
  then have "dropWhile P (s @ post) = s @ post" by (cases s) auto
  then show ?case by (intro exI [of _ "[]"]) simp
next
  case (Cons c pre)
  show ?case
  proof (cases "P c")
    case True
    with Cons show ?thesis by simp
  next
    case False
    then show ?thesis by (intro exI [of _ "c # pre"]) simp
  qed
qed

lemma trimEnd_keeps:
  assumes "s \<noteq> []" and "\<not> is_ws (last s)"
  shows "\<exists>post1. trimEnd (pre @ s @ post) = pre @ s @ post1"
proof -
  have "rev s \<noteq> []" "\<not> is_ws (hd (rev s))"
    using assms by (simp_all add: hd_rev)
  then obtain q where "dropWhile is_ws (rev post @ rev s @ rev pre) = q @ rev s @ rev pre"
    using dropWhile_keeps [of "rev s" is_ws "rev post" "rev pre"] by blast
  then have "trimEnd (pre @ s @ post) = pre @ s @ rev q"
    by (simp add: trimEnd_def)
  then show ?thesis by blast
qed

lemma collapse_plain:
  "10 \<notin> set l \<Longrightarrow> collapse_newlines (l @ ys) = l @ collapse_newlines ys"
  by (induction l) auto

lemma collapse_single:
  "ys \<noteq> [] \<Longrightarrow> hd ys \<noteq> 10 \<Longrightarrow> collapse_newlines (10 # ys) = 10 # collapse_newlines ys"
  by (cases ys) auto

lemma takeWhile_append_stop:
  "ys = [] \<or> \<not> P (hd ys) \<Longrightarrow> takeWhile P (xs @ ys) = takeWhile P xs"
  by (induction xs) (auto, cases ys, auto)

lemma dropWhile_append_stop:
  "ys = [] \<or> \<not> P (hd ys) \<Longrightarrow> dropWhile P (xs @ ys) = dropWhile P xs @ ys"
  by (induction xs) (auto, cases ys, auto)

lemma collapse_append:
  "ys = [] \<or> hd ys \<noteq> 10 \<Longrightarrow>
   collapse_newlines (xs @ ys) = collapse_newlines xs @ collapse_newlines ys"
proof (induction xs rule: collapse_newlines.induct)
  case 1
  then show ?case by simp
next
  case (2 c cs)
  show ?case
  proof (cases "c = 10")
    case False
    with 2 show ?thesis by simp
  next
    case True
    have tw: "takeWhile (\<lambda>c. c = 10) (cs @ ys) = takeWhile (\<lambda>c. c = 10) cs"
      using "2.prems" by (intro takeWhile_append_stop) auto
    have dw: "dropWhile (\<lambda>c. c = 10) (cs @ ys) = dropWhile (\<lambda>c. c = 10) cs @ ys"
      using "2.prems" by (intro dropWhile_append_stop) auto
    have "collapse_newlines (dropWhile (\<lambda>c. c = 10) cs @ ys)
          = collapse_newlines (dropWhile (\<lambda>c. c = 10) cs) @ collapse_newlines ys"
      using "2.IH"(1) [OF True refl refl] "2.prems" by simp
    with True tw dw show ?thesis by (simp add: Let_def)
  qed
qed

text \<open>A piece is stable when collapsing newlines leaves it as it is, whatever follows.\<close>

lemma cleanup_keeps:
  assumes sub: "sublist s raw"
    and ne: "s \<noteq> []" and hd: "hd s \<noteq> 10" and last: "\<not> is_ws (last s)"
    and stable: "\<And>post. collapse_newlines (s @ post) = s @ collapse_newlines post"
  shows "sublist s (trimEnd (collapse_newlines (strip_leading_newlines raw)) @ [10])"
proof -
  from sub obtain pre post where raw: "raw = pre @ s @ post"
    by (auto simp: sublist_def)
  obtain pre1 where "strip_leading_newlines raw = pre1 @ s @ post"
    unfolding raw strip_leading_newlines_def
    using dropWhile_keeps [of s "\<lambda>c. c = 10" pre post] ne hd by blast
  moreover have "collapse_newlines (pre1 @ s @ post)
                 = collapse_newlines pre1 @ s @ collapse_newlines post"
    using collapse_append [of "s @ post" pre1] ne hd stable by (cases s) auto
  ultimately have "collapse_newlines (strip_leading_newlines raw)
                 = collapse_newlines pre1 @ s @ collapse_newlines post"
    by simp
  moreover obtain post1 where
    "trimEnd (collapse_newlines pre1 @ s @ collapse_newlines post)
       = collapse_newlines pre1 @ s @ post1"
    using trimEnd_keeps [OF ne last] by blast
  ultimately have "trimEnd (collapse_newlines (strip_leading_newlines raw)) @ [10]
                 = collapse_newlines pre1 @ s @ (post1 @ [10])"
    by simp
  then show ?thesis unfolding sublist_def by blast
qed

lemma sublist_concat_map:
  "n \<in> set ns \<Longrightarrow> sublist (f n) (concat (map f ns))"
proof (induction ns)
  case Nil
  then show ?case by simp
next
  case (Cons a ns)
  show ?case
  proof (cases "n = a")
    case True
    then show ?thesis by simp
  next
    case False
    with Cons have "sublist (f n) (concat (map f ns))" by simp
    then show ?thesis by (simp add: sublist_append)
  qed
qed

lemma sublist_applyMark: "sublist t (applyMark m t)"
  unfolding applyMark_def sublist_def
  by (auto intro: exI [of _ "[]"] | metis append.assoc)+

lemma sublist_applyMarks: "sublist t (applyMarks ms t)"
proof (induction ms arbitrary: t)
  case Nil
  show ?case by (simp add: applyMarks_def)
next
  case (Cons m ms)
  have "sublist t (applyMark m t)" by (rule sublist_applyMark)
  moreover have "sublist (applyMark m t) (applyMarks ms (applyMark m t))" by (rule Cons.IH)
  ultimately show ?case
    using sublist_order.order_trans by (fastforce simp: applyMarks_def)
qed

lemma applyMarks_bold:
  "mark_type b = js ''bold'' \<Longrightarrow>
   applyMarks (ms1 @ b # ms2) x = applyMarks ms2 (js ''**'' @ applyMarks ms1 x @ js ''**'')"
  by (simp add: applyMarks_def applyMark_def)

lemma js_literals:
  "js ''## '' = [35, 35, 32]" "js ''**'' = [42, 42]" "js ''| '' = [124, 32]"
  "js '' |'' = [32, 124]" "js ''---'' = [45, 45, 45]"
  by (simp_all add: js_def)

lemma serializeNode_heading2:
  assumes "ntype h = Some (js ''heading'')" and "attr attr_level (node_attrs h) = Some 2"
  shows "serializeNode opts d h = [10] @ js ''## '' @ serializeInline opts (content h) @ [10]"
  using assms by (simp add: serializeNode.simps js_eq_iff or_else_def js_literals eval_nat_numeral)

lemma serializeNode_paragraph:
  assumes "ntype p = Some (js ''paragraph'')"
  shows "serializeNode opts d p = [10] @ serializeInline opts (content p) @ [10]"
  using assms by (simp add: serializeNode.simps)

lemma serializeNode_table:
  assumes "ntype t = Some (js ''table'')"
  shows "serializeNode opts d t = [10] @ serializeTable opts t @ [10]"
  using assms by (simp add: serializeNode.simps js_eq_iff)

text \<open>The lines of a table, joined: the first line and then each further line after a
  newline.\<close>

lemma join_newline: "join [10] (l # ls) = l @ concat (map ((#) 10) ls)"
  by (induction ls arbitrary: l) auto

lemma length_serializeCells: "length (serializeCells opts row) = length (kids row)"
  by (simp add: serializeCells_def)

lemma serializeCells_empty: "serializeCells opts row = [] \<longleftrightarrow> kids row = []"
  by (simp add: serializeCells_def)

lemma serializeTable_rows:
  assumes "kids t = hdr # rows" and "0 < length (kids hdr)"
  shows "serializeTable opts t =
           row_line (serializeCells opts hdr) @ [10] @
           row_line (replicate (length (kids hdr)) (js ''---'')) @
           concat (map (\<lambda>r. 10 # row_line (serializeCells opts r)) rows)"
  using assms
  by (simp add: serializeTable_def Let_def length_serializeCells join_newline comp_def
      serializeCells_empty del: join.simps)

lemma row_line_shape:
  "row_line cells \<noteq> [] \<and> hd (row_line cells) = 124 \<and> last (row_line cells) = 124"
  by (simp add: row_line_def js_literals)

lemma join_no_newline:
  "\<forall>c \<in> set cells. 10 \<notin> set c \<Longrightarrow> 10 \<notin> set sep \<Longrightarrow> 10 \<notin> set (join sep cells)"
  by (induction sep cells rule: join.induct) auto

lemma row_line_no_newline:
  "\<forall>c \<in> set cells. 10 \<notin> set c \<Longrightarrow> 10 \<notin> set (row_line cells)"
  using join_no_newline [of cells "js '' | ''"]
  by (simp add: row_line_def js_def)

lemma collapse_lines:
  assumes "\<forall>l \<in> set ls. l \<noteq> [] \<and> hd l \<noteq> 10 \<and> 10 \<notin> set l"
  shows "collapse_newlines (concat (map ((#) 10) ls) @ post)
         = concat (map ((#) 10) ls) @ collapse_newlines post"
  using assms
proof (induction ls)
  case Nil
  show ?case by simp
next
  case (Cons l ls)
  then have l: "l \<noteq> []" "hd l \<noteq> 10" "10 \<notin> set l" by auto
  let ?rest = "concat (map ((#) 10) ls) @ post"
  have "collapse_newlines (10 # (l @ ?rest)) = 10 # collapse_newlines (l @ ?rest)"
    using l by (intro collapse_single) auto
  also have "collapse_newlines (l @ ?rest) = l @ collapse_newlines ?rest"
    using l by (intro collapse_plain)
  also have "collapse_newlines ?rest = concat (map ((#) 10) ls) @ collapse_newlines post"
    using Cons by simp
  finally show ?case by simp
qed

lemma heading_piece:
  assumes doc: "ntype doc = Some (js ''doc'')" "content doc = Some nodes"
    and h: "h \<in> set nodes" "ntype h = Some (js ''heading'')"
      "attr attr_level (node_attrs h) = Some 2"
    and hi: "serializeInline opts (content h) \<noteq> []"
      "10 \<notin> set (serializeInline opts (content h))"
      "\<not> is_ws (last (serializeInline opts (content h)))"
  shows "sublist (js ''## '' @ serializeInline opts (content h)) (jsonContentToMarkdown opts doc)"
proof -
  let ?hi = "serializeInline opts (content h)"
  let ?raw = "concat (map (serializeNode opts 0) nodes)"
  have "sublist (serializeNode opts 0 h) ?raw"
    using h(1) by (rule sublist_concat_map)
  moreover have "sublist (js ''## '' @ ?hi) (serializeNode opts 0 h)"
    using sublist_appendI [of "js ''## '' @ ?hi" "[10]" "[10]"]
    by (simp add: serializeNode_heading2 [OF h(2,3)])
  ultimately have "sublist (js ''## '' @ ?hi) ?raw"
    by (rule sublist_order.order_trans [rotated])
  moreover have "\<And>post. collapse_newlines ((js ''## '' @ ?hi) @ post)
                   = (js ''## '' @ ?hi) @ collapse_newlines post"
    using hi(2) by (intro collapse_plain) (simp add: js_literals)
  ultimately have "sublist (js ''## '' @ ?hi)
      (trimEnd (collapse_newlines (strip_leading_newlines ?raw)) @ [10])"
    using hi by (intro cleanup_keeps) (simp_all add: js_literals)
  then show ?thesis using doc by (simp add: jsonContentToMarkdown_def)
qed

lemma bold_piece:
  assumes doc: "ntype doc = Some (js ''doc'')" "content doc = Some nodes"
    and p: "p \<in> set nodes" "ntype p = Some (js ''paragraph'')" "content p = Some inl"
    and tn: "tn \<in> set inl" "ntype tn = Some (js ''text'')"
      "marks tn = Some (ms1 @ [b] @ ms2)" "mark_type b = js ''bold''"
    and x: "10 \<notin> set (applyMarks ms1 (or_else (text_of tn) []))"
  shows "sublist (js ''**'' @ applyMarks ms1 (or_else (text_of tn) []) @ js ''**'')
           (jsonContentToMarkdown opts doc)"
proof -
  let ?s = "js ''**'' @ applyMarks ms1 (or_else (text_of tn) []) @ js ''**''"
  let ?raw = "concat (map (serializeNode opts 0) nodes)"
  have "or_else (marks tn) [] = ms1 @ b # ms2"
    using tn(3) by (simp add: or_else_def)
  then have "serializeInlineNode opts tn = applyMarks ms2 ?s"
    using tn by (simp add: serializeInlineNode_def applyMarks_bold)
  then have "sublist ?s (serializeInlineNode opts tn)"
    by (simp add: sublist_applyMarks)
  moreover have "sublist (serializeInlineNode opts tn) (serializeInline opts (content p))"
    using tn(1) p(3) by (simp add: serializeInline_def sublist_concat_map)
  moreover have "sublist (serializeInline opts (content p)) (serializeNode opts 0 p)"
    using sublist_appendI [of "serializeInline opts (content p)" "[10]" "[10]"]
    by (simp add: serializeNode_paragraph [OF p(2)])
  moreover have "sublist (serializeNode opts 0 p) ?raw"
    using p(1) by (rule sublist_concat_map)
  ultimately have "sublist ?s ?raw"
    using sublist_order.order_trans by blast
  moreover have "\<And>post. collapse_newlines (?s @ post) = ?s @ collapse_newlines post"
    using x by (intro collapse_plain) (simp add: js_literals)
  ultimately have "sublist ?s (trimEnd (collapse_newlines (strip_leading_newlines ?raw)) @ [10])"
    by (intro cleanup_keeps) (simp_all add: js_literals is_ws_def)
  then show ?thesis using doc by (simp add: jsonContentToMarkdown_def)
qed

lemma table_piece:
  assumes doc: "ntype doc = Some (js ''doc'')" "content doc = Some nodes"
    and t: "t \<in> set nodes" "ntype t = Some (js ''table'')" "kids t = hdr # rows"
      "0 < length (kids hdr)"
    and cells: "\<forall>row \<in> set (hdr # rows). \<forall>c \<in> set (serializeCells opts row). 10 \<notin> set c"
  shows "sublist
           (row_line (serializeCells opts hdr) @ [10] @
            row_line (replicate (length (kids hdr)) (js ''---'')) @
            concat (map (\<lambda>r. 10 # row_line (serializeCells opts r)) rows))
           (jsonContentToMarkdown opts doc)"
proof -
  let ?h = "row_line (serializeCells opts hdr)"
  let ?ls = "row_line (replicate (length (kids hdr)) (js ''---''))
             # map (\<lambda>r. row_line (serializeCells opts r)) rows"
  let ?s = "?h @ concat (map ((#) 10) ?ls)"
  let ?raw = "concat (map (serializeNode opts 0) nodes)"
  have s_eq: "serializeTable opts t = ?s"
    using serializeTable_rows [OF t(3,4)] by (simp add: comp_def)
  have "sublist ?s (serializeNode opts 0 t)"
    using sublist_appendI [of "serializeTable opts t" "[10]" "[10]"]
    unfolding serializeNode_table [OF t(2)] s_eq by simp
  moreover have "sublist (serializeNode opts 0 t) ?raw"
    using t(1) by (rule sublist_concat_map)
  ultimately have sub: "sublist ?s ?raw"
    using sublist_order.order_trans by blast
  have h_plain: "10 \<notin> set ?h"
    using cells by (intro row_line_no_newline) simp
  have ls_ok: "\<forall>l \<in> set ?ls. l \<noteq> [] \<and> hd l \<noteq> 10 \<and> 10 \<notin> set l"
  proof
    fix l assume "l \<in> set ?ls"
    then obtain cs where l: "l = row_line cs" and cs: "\<forall>c \<in> set cs. 10 \<notin> set c"
      using cells by (auto simp: js_literals)
    show "l \<noteq> [] \<and> hd l \<noteq> 10 \<and> 10 \<notin> set l"
      using row_line_shape [of cs] row_line_no_newline [OF cs] l by simp
  qed
  have stable: "\<And>post. collapse_newlines (?s @ post) = ?s @ collapse_newlines post"
  proof -
    fix post
    have "collapse_newlines (?h @ (concat (map ((#) 10) ?ls) @ post))
          = ?h @ collapse_newlines (concat (map ((#) 10) ?ls) @ post)"
      using h_plain by (rule collapse_plain)
    also have "collapse_newlines (concat (map ((#) 10) ?ls) @ post)
          = concat (map ((#) 10) ?ls) @ collapse_newlines post"
      using ls_ok by (rule collapse_lines)
    finally show "collapse_newlines (?s @ post) = ?s @ collapse_newlines post" by simp
  qed
  have shape: "?s \<noteq> []" "hd ?s \<noteq> 10" "\<not> is_ws (last ?s)"
  proof -
    show "?s \<noteq> []" using row_line_shape [of "serializeCells opts hdr"] by simp
    show "hd ?s \<noteq> 10" using row_line_shape [of "serializeCells opts hdr"] by simp
    have "last ?s = 124"
    proof (cases rows rule: rev_cases)
      case Nil
      then show ?thesis
        using row_line_shape [of "replicate (length (kids hdr)) (js ''---'')"] by simp
    next
      case (snoc rs r)
      then show ?thesis using row_line_shape [of "serializeCells opts r"] by simp
    qed
    then show "\<not> is_ws (last ?s)" by (simp add: is_ws_def)
  qed
  have "sublist ?s (trimEnd (collapse_newlines (strip_leading_newlines ?raw)) @ [10])"
    using sub shape stable by (rule cleanup_keeps)
  then show ?thesis using doc by (simp add: jsonContentToMarkdown_def comp_def)
qed

lemma replicate_2: "replicate 2 x = [x, x]"
  by (simp add: numeral_2_eq_2)

lemmas serializer_eval = replicate_2 jsonContentToMarkdown_def serializeNode.simps serializeInline_def
  serializeInlineNode_def serializeTable_def serializeCells_def row_line_def
  first_child_content_def applyMarks_def applyMark_def kids_def or_else_def attr_def
  block_node_def heading_node_def text_node_def no_attrs_def trim_def trimEnd_def is_ws_def
  strip_leading_newlines_def js_eq_iff Let_def

lemma degenerate_doc_markdown:
  "jsonContentToMarkdown None degenerate_doc = js ''## T'' @ [10, 10] @ js ''**_b_**'' @ [10]"
  by (simp add: degenerate_doc_def serializer_eval) (simp add: js_def is_ws_def)

subsection \<open>Claims about the serializer\<close>

text \<open>
  Claim C7 says that every tree with a heading of level 2, a paragraph with a bold text
  node and a table with a header row of \<open>k\<close> cells converts to markdown with the
  heading, \<^verbatim>\<open>**text**\<close> and a separator row of \<open>k\<close> columns. A tree whose bold text
  carries an italic mark first, and whose table has a header row without cells, is a
  counterexample: the bold text comes out as \<^verbatim>\<open>**_b_**\<close>, and the table is dropped.
\<close>

theorem converter_fidelity_fails:
  "jsonContentToMarkdown None degenerate_doc = js ''## T'' @ [10, 10] @ js ''**_b_**'' @ [10] \<and>
   \<not> sublist (js ''**b**'') (jsonContentToMarkdown None degenerate_doc) \<and>
   \<not> sublist (js ''---'') (jsonContentToMarkdown None degenerate_doc)"
  unfolding degenerate_doc_markdown by (simp add: js_def sublist_code)

text \<open>
  Claim C7, amended. Take a document whose top-level nodes hold a heading of level 2, a
  paragraph with a text node carrying a bold mark, and a table whose header row has
  \<open>k \<ge> 1\<close> cells; let the heading text be non-empty, free of line breaks and not end
  in white space, and let the marked text and the table cells be free of line breaks.
  Then the markdown contains \<^verbatim>\<open>## \<close> followed by the heading text; the text, with the
  marks listed before bold applied, between \<^verbatim>\<open>**\<close> and \<^verbatim>\<open>**\<close>; and the header row, a
  separator row of exactly \<open>k\<close> columns \<^verbatim>\<open>---\<close>, and the data rows, line after line.
\<close>

theorem converter_fidelity:
  assumes "ntype doc = Some (js ''doc'')" and "content doc = Some nodes"
    and "h \<in> set nodes" and "ntype h = Some (js ''heading'')"
    and "attr attr_level (node_attrs h) = Some 2"
    and "serializeInline opts (content h) \<noteq> []"
    and "10 \<notin> set (serializeInline opts (content h))"
    and "\<not> is_ws (last (serializeInline opts (content h)))"
    and "p \<in> set nodes" and "ntype p = Some (js ''paragraph'')" and "content p = Some inl"
    and "tn \<in> set inl" and "ntype tn = Some (js ''text'')"
    and "marks tn = Some (ms1 @ [b] @ ms2)" and "mark_type b = js ''bold''"
    and "10 \<notin> set (applyMarks ms1 (or_else (text_of tn) []))"
    and "t \<in> set nodes" and "ntype t = Some (js ''table'')" and "kids t = hdr # rows"
    and "length (kids hdr) = k" and "0 < k"
    and "\<forall>row \<in> set (hdr # rows). \<forall>c \<in> set (serializeCells opts row). 10 \<notin> set c"
  shows "sublist (js ''## '' @ serializeInline opts (content h)) (jsonContentToMarkdown opts doc) \<and>
         sublist (js ''**'' @ applyMarks ms1 (or_else (text_of tn) []) @ js ''**'')
           (jsonContentToMarkdown opts doc) \<and>
         sublist
           (row_line (serializeCells opts hdr) @ [10] @
            row_line (replicate k (js ''---'')) @
            concat (map (\<lambda>r. [10] @ row_line (serializeCells opts r)) rows))
           (jsonContentToMarkdown opts doc)"
proof (intro conjI)
  show "sublist (js ''## '' @ serializeInline opts (content h)) (jsonContentToMarkdown opts doc)"
    using assms(1-8) by (rule heading_piece)
  show "sublist (js ''**'' @ applyMarks ms1 (or_else (text_of tn) []) @ js ''**'')
           (jsonContentToMarkdown opts doc)"
    using assms(1,2,9-16) by (rule bold_piece)
  have "sublist
           (row_line (serializeCells opts hdr) @ [10] @
            row_line (replicate (length (kids hdr)) (js ''---'')) @
            concat (map (\<lambda>r. 10 # row_line (serializeCells opts r)) rows))
           (jsonContentToMarkdown opts doc)"
    using assms(1,2,17-19) assms(21) [folded assms(20)] assms(22) by (rule table_piece)
  then show "sublist
           (row_line (serializeCells opts hdr) @ [10] @
            row_line (replicate k (js ''---'')) @
            concat (map (\<lambda>r. [10] @ row_line (serializeCells opts r)) rows))
           (jsonContentToMarkdown opts doc)"
    using assms(20) by simp
qed

text \<open>The tree of the converter test.\<close>

theorem converter_fidelity_witness:
  "sublist (js ''## Title'') (jsonContentToMarkdown None example_doc) \<and>
   sublist (js ''**text**'') (jsonContentToMarkdown None example_doc) \<and>
   sublist (js ''| Name | Age |'' @ [10] @ js ''| --- | --- |'' @ [10] @ js ''| Alice | 30 |'')
     (jsonContentToMarkdown None example_doc)"
proof -
  let ?h = "heading_node 2 [text_node (js ''Title'') []]"
  let ?tn = "text_node (js ''text'') [Mark (js ''bold'') None]"
  let ?p = "block_node ''paragraph'' [?tn]"
  let ?hdr = "block_node ''tableRow''
           [block_node ''tableHeader'' [block_node ''paragraph'' [text_node (js ''Name'') []]],
            block_node ''tableHeader'' [block_node ''paragraph'' [text_node (js ''Age'') []]]]"
  let ?row = "block_node ''tableRow''
           [block_node ''tableCell'' [block_node ''paragraph'' [text_node (js ''Alice'') []]],
            block_node ''tableCell'' [block_node ''paragraph'' [text_node (js ''30'') []]]]"
  let ?t = "block_node ''table'' [?hdr, ?row]"
  have hi: "serializeInline None (content ?h) = js ''Title''"
    by (simp add: serializer_eval)
  have cells: "serializeCells None ?hdr = [js ''Name'', js ''Age'']"
    "serializeCells None ?row = [js ''Alice'', js ''30'']"
    by (simp_all add: serializer_eval js_def)
  have "sublist (js ''## '' @ serializeInline None (content ?h))
          (jsonContentToMarkdown None example_doc) \<and>
        sublist (js ''**'' @ applyMarks [] (or_else (text_of ?tn) []) @ js ''**'')
          (jsonContentToMarkdown None example_doc) \<and>
        sublist
          (row_line (serializeCells None ?hdr) @ [10] @
           row_line (replicate 2 (js ''---'')) @
           concat (map (\<lambda>r. [10] @ row_line (serializeCells None r)) [?row]))
          (jsonContentToMarkdown None example_doc)"
  proof (rule converter_fidelity [where doc = example_doc and opts = None
        and nodes = "[?h, ?p, ?t]" and h = ?h and p = ?p and inl = "[?tn]" and tn = ?tn
        and b = "Mark (js ''bold'') None" and ?ms1.0 = "[]" and ?ms2.0 = "[]" and t = ?t
        and hdr = ?hdr and rows = "[?row]" and k = 2])
    show "ntype example_doc = Some (js ''doc'')"
      by (simp add: example_doc_def block_node_def)
    show "content example_doc = Some [?h, ?p, ?t]"
      by (simp add: example_doc_def block_node_def)
    show "serializeInline None (content ?h) \<noteq> []"
      "10 \<notin> set (serializeInline None (content ?h))"
      "\<not> is_ws (last (serializeInline None (content ?h)))"
      unfolding hi by (simp_all add: js_def is_ws_def)
    show "10 \<notin> set (applyMarks [] (or_else (text_of ?tn) []))"
      by (simp add: serializer_eval js_def)
    show "\<forall>row \<in> set [?hdr, ?row]. \<forall>c \<in> set (serializeCells None row). 10 \<notin> set c"
      by (simp add: cells, simp add: js_def)
    show "kids ?t = [?hdr, ?row]" "length (kids ?hdr) = 2"
      by (simp_all add: kids_def block_node_def)
  qed (simp_all add: block_node_def heading_node_def text_node_def attr_def)
  moreover have "js ''## '' @ js ''Title'' = js ''## Title''"
    by (simp add: js_def)
  moreover have "js ''**'' @ applyMarks [] (or_else (text_of ?tn) []) @ js ''**'' = js ''**text**''"
    by (simp add: applyMarks_def or_else_def text_node_def js_def)
  moreover have "row_line [js ''Name'', js ''Age''] @ [10] @ row_line (replicate 2 (js ''---'')) @
       concat (map (\<lambda>r. [10] @ row_line (serializeCells None r)) [?row])
     = js ''| Name | Age |'' @ [10] @ js ''| --- | --- |'' @ [10] @ js ''| Alice | 30 |''"
    by (simp add: cells row_line_def replicate_2, simp add: js_def)
  ultimately show ?thesis by (simp only: hi cells)
qed

subsection \<open>Importing one post\<close>

lemma js_empty_iff [simp]: "js s = [] \<longleftrightarrow> s = []" by (simp add: js_def)

text \<open>
  A skipped post leaves the world as the slug check found it: nothing is stored after
  the check.
\<close>

lemma check_and_persist_skip:
  assumes "check_and_persist D zipFiles entry mode parsed w = (Inr res, w')"
    and "result_skipped res"
  shows "w' = w"
proof -
  obtain c md ws where parsed: "parsed = (c, md, ws)" by (cases parsed) auto
  show ?thesis
  proof (cases "normalizeFrontmatter (platform_of D) md")
    case (Inl e)
    with assms parsed show ?thesis by (simp add: check_and_persist_def)
  next
    case (Inr r)
    show ?thesis
    proof (cases r)
      case None
      with Inr assms parsed show ?thesis by (simp add: check_and_persist_def)
    next
      case (Some n)
      with Inr assms parsed show ?thesis
        by (auto simp: check_and_persist_def persist_post_def Let_def
            split: if_splits prod.splits)
    qed
  qed
qed

text \<open>
  In native mode nothing is stored before the check either: a skipped import leaves the
  world unchanged, and an entry whose candidate slug exists is skipped.
\<close>

lemma native_skip_no_mutation:
  assumes "importSinglePost D zipFiles entry Native w = (Inr res, w')"
    and "result_skipped res"
  shows "w' = w"
  using assms
  by (auto simp: importSinglePost_def split: sum.splits dest: check_and_persist_skip)

lemma native_existing_slug_skipped:
  assumes "parse_native D zipFiles entry = Inr (c, md, ws)"
    and "normalizeFrontmatter (platform_of D) md = Inr (Some n)"
    and "slugExists (db w)
           (slugify (toLowerCase D)
              (Some (if slug n = [] then (if title n = [] then js ''Untitled'' else title n)
                     else slug n)))"
  shows "importSinglePost D zipFiles entry Native w =
           (Inr \<lparr> result_title = (if title n = [] then js ''Untitled'' else title n),
                   result_slug = (if slug n = [] then (if title n = [] then js ''Untitled'' else title n)
                                  else slug n),
                   result_skipped = True, result_warnings = ws \<rparr>, w)"
  using assms by (simp add: importSinglePost_def check_and_persist_def Let_def)

lemma example_md_decoded: "map (unat \<circ> (of_nat :: nat \<Rightarrow> 8 word)) example_md = example_md"
  by (simp add: example_md_def js_def)

lemma example_read:
  "readTextFile example_strFromU8 example_zip (js ''hello.md'') = Inr (Some example_md)"
  by (simp add: readTextFile_def has_property_def get_property_def example_zip_def
      example_md_decoded js_eq_iff)

lemma example_images: "extractMarkdownImages (js ''![a](./a.png)'') = [(js ''./a.png'', Relative)]"
  by (simp add: extractMarkdownImages_def match_image_def startsWith_def js_def)

lemma example_resolve: "resolveRelativePath [] (js ''./a.png'') = js ''a.png''"
  by (simp add: resolveRelativePath_def strip_dot_slash_def startsWith_def js_def)

lemma example_file_name: "file_name_of (js ''a.png'') = js ''a.png''"
  by (simp add: file_name_of_def js_def)

lemma example_put:
  "put_and_record example_deps (js ''k-a.png'') (js ''a.png'') (Payload [137, 80, 78, 71])
     example_world = Inr example_world_after"
  by (simp add: put_and_record_def example_deps_def example_world_def example_world_after_def
      example_media_row_def insertMedia_def next_id_def Let_def js_def)

lemma example_upload:
  "uploadMarkdownImages example_deps example_zip (js ''![a](./a.png)'') [] example_world
     = (js ''![a](/images/k-a.png?quality=80)'', [], example_world_after)"
proof -
  have key: "generateKey example_deps (js ''a.png'') = js ''k-a.png''"
    by (simp add: example_deps_def js_def)
  have zip: "get_property example_zip (js ''a.png'') = Some (Payload [137, 80, 78, 71])"
    by (simp add: get_property_def example_zip_def js_eq_iff)
  have one: "upload_markdown_one example_deps example_zip [] ([], [], example_world) (js ''./a.png'')
          = ([(js ''./a.png'', js ''/images/k-a.png?quality=80'')], [], example_world_after)"
    by (simp add: upload_markdown_one_def has_property_def example_resolve zip
        example_file_name key example_put map_set_def Let_def, simp add: js_def)
  have rewrite: "rewriteMarkdownImagePaths (js ''![a](./a.png)'')
            [js ''./a.png'' \<mapsto> js ''/images/k-a.png?quality=80'']
          = js ''![a](/images/k-a.png?quality=80)''"
    by (simp add: js_def match_image_def startsWith_def)
  show ?thesis
    by (simp add: uploadMarkdownImages_def example_images one rewrite Let_def)
qed

lemma example_normalized:
  "normalizeFrontmatter example_platform [js ''title'' \<mapsto> JStr (js ''Hello'')]
     = Inr (Some \<lparr> title = js ''Hello'', slug = [], summary = Undefined, status = js ''published'',
                    publishedAt = Undefined, createdAt = Undefined, updatedAt = Undefined,
                    readTimeInMinutes = Finite 1, tags = [] \<rparr>)"
  by (simp add: normalizeFrontmatter_eval record_eval)

lemma example_slugify: "slugify (toLowerCase example_deps) (Some (js ''Hello'')) = js ''hello''"
  by (simp add: slugify_def no_text_def example_deps_def trim_def trimEnd_def is_ws_def
      slug_char_def Let_def js_def)

lemma example_parse:
  "parse_markdown example_deps example_zip example_entry example_world
     = (Inr (Some (block_node ''doc'' []), [js ''title'' \<mapsto> JStr (js ''Hello'')], []),
        example_world_after)"
proof -
  have "lib_strFromU8 example_deps = example_strFromU8"
    "matter example_deps example_md
       = Inr ([js ''title'' \<mapsto> JStr (js ''Hello'')], js ''![a](./a.png)'')"
    "markdownToJsonContent example_deps (js ''![a](/images/k-a.png?quality=80)'')
       = Inr (block_node ''doc'' [])"
    by (simp_all add: example_deps_def)
  moreover have "trim (js ''![a](./a.png)'') \<noteq> []"
    by (simp add: trim_def trimEnd_def is_ws_def js_def)
  moreover have "take (last_index_of 47 (js ''hello.md'')) (js ''hello.md'') = []"
    by (simp add: last_index_of_def js_def)
  ultimately show ?thesis
    by (simp add: parse_markdown_def example_entry_def example_read no_text_def
        parseFrontmatter_def example_upload convert_markdown_def example_md_def Let_def)
qed

text \<open>
  Claim C1 says that an entry whose candidate slug exists is skipped without any
  mutation of the store, in native and in markdown mode. In markdown mode the images of
  the body are uploaded before the slug check: for the example archive, whose post
  \<^verbatim>\<open>hello.md\<close> collides with the stored slug \<^verbatim>\<open>hello\<close>, the import is skipped and the
  media table has a new row.
\<close>

theorem markdown_skip_inserts_media:
  "fst (importSinglePost example_deps example_zip example_entry Markdown example_world)
     = Inr \<lparr> result_title = js ''Hello'', result_slug = js ''Hello'', result_skipped = True,
             result_warnings = [] \<rparr> \<and>
   slugExists (db example_world) (slugify (toLowerCase example_deps) (Some (js ''Hello''))) \<and>
   media_rows (db example_world) = [] \<and>
   media_rows (db (snd (importSinglePost example_deps example_zip example_entry Markdown
                          example_world)))
     = [example_media_row]"
proof -
  have exists: "slugExists (db example_world_after) (js ''hello'')"
    "slugExists (db example_world) (js ''hello'')"
    by (simp_all add: slugExists_def example_world_after_def example_world_def)
  have "platform_of example_deps = example_platform" by (simp add: example_deps_def)
  then have "importSinglePost example_deps example_zip example_entry Markdown example_world
        = (Inr \<lparr> result_title = js ''Hello'', result_slug = js ''Hello'', result_skipped = True,
                   result_warnings = [] \<rparr>, example_world_after)"
    by (simp add: importSinglePost_def example_parse check_and_persist_def example_normalized
        example_slugify exists Let_def)
  then show ?thesis
    using exists
    by (simp add: example_slugify example_world_after_def example_world_def)
qed

subsection \<open>Workflows\<close>

lemma enumerate_empty_archive:
  "fetchZipFiles D (imp_r2Key payload) w = Inr [] \<Longrightarrow> enumerate_step D payload w = Inr []"
  by (simp add: enumerate_step_def enumerateNativePosts_def enumerateMarkdownPosts_def
      listDirectories_def)

text \<open>
  When the status store fails at the write of the record for a task without posts, the
  \<^verbatim>\<open>catch\<close> block of \<^verbatim>\<open>run\<close> takes over: it asks the store once more, now for a
  record with the status failed that carries the message of the store's error.
\<close>

lemma zero_units_store_failure:
  assumes "enumerate_step D payload w = Inr []"
    and "kv_put_error D (kv_writes w) (importProgress (imp_taskId payload)) = Some e"
  shows "ImportWorkflow_run D payload w =
           run_catch D (importProgress (imp_taskId payload)) e
             (w\<lparr> kv_writes := Suc (kv_writes w) \<rparr>)"
  using assms by (simp add: ImportWorkflow_run_def updateProgress_def Let_def)

lemma zero_posts_store_failure:
  assumes "findFullPosts (db w) (exp_postIds request) (exp_status request) = []"
    and "kv_put_error D (kv_writes w) (exportProgress (exp_taskId request)) = Some e"
  shows "ExportWorkflow_run D request w =
           run_catch D (exportProgress (exp_taskId request)) e
             (w\<lparr> kv_writes := Suc (kv_writes w) \<rparr>)"
  using assms by (simp add: ExportWorkflow_run_def updateProgress_def Let_def)

text \<open>
  Claim C3. When the enumeration of an import finds no post, or an export finds no
  matching post, and the status store accepts the write, the run writes exactly one
  progress record and ends: the record is completed, with total 0, completed 0 and one
  non-empty warning. The empty archive is such an import.
\<close>

theorem zero_units_completed:
  "(enumerate_step D payload w = Inr [] \<and>
    kv_put_error D (kv_writes w) (importProgress (imp_taskId payload)) = None \<longrightarrow>
      ImportWorkflow_run D payload w =
        (None, w\<lparr> kv := kv w @
           [(importProgress (imp_taskId payload),
             \<lparr> tp_status = Completed, tp_total = 0, tp_completed = 0, tp_current = [],
               tp_errors = [], tp_warnings = [msg_no_importable], tp_downloadKey = None,
               tp_report = Some empty_report \<rparr>)],
           kv_writes := Suc (kv_writes w) \<rparr>)) \<and>
   (findFullPosts (db w) (exp_postIds request) (exp_status request) = [] \<and>
    kv_put_error D (kv_writes w) (exportProgress (exp_taskId request)) = None \<longrightarrow>
      ExportWorkflow_run D request w =
        (None, w\<lparr> kv := kv w @
           [(exportProgress (exp_taskId request),
             \<lparr> tp_status = Completed, tp_total = 0, tp_completed = 0, tp_current = [],
               tp_errors = [], tp_warnings = [msg_no_exportable], tp_downloadKey = None,
               tp_report = None \<rparr>)],
           kv_writes := Suc (kv_writes w) \<rparr>)) \<and>
   tp_status (nothing_to_do message report) = Completed \<and>
   (fetchZipFiles D (imp_r2Key payload) w = Inr [] \<longrightarrow> enumerate_step D payload w = Inr []) \<and>
   msg_no_importable \<noteq> [] \<and> msg_no_exportable \<noteq> []"
proof (intro conjI impI)
  show "tp_status (nothing_to_do message report) = Completed"
    by (simp add: nothing_to_do_def)
next
  assume "enumerate_step D payload w = Inr [] \<and>
    kv_put_error D (kv_writes w) (importProgress (imp_taskId payload)) = None"
  then show "ImportWorkflow_run D payload w =
        (None, w\<lparr> kv := kv w @
           [(importProgress (imp_taskId payload),
             \<lparr> tp_status = Completed, tp_total = 0, tp_completed = 0, tp_current = [],
               tp_errors = [], tp_warnings = [msg_no_importable], tp_downloadKey = None,
               tp_report = Some empty_report \<rparr>)],
           kv_writes := Suc (kv_writes w) \<rparr>)"
    by (simp add: ImportWorkflow_run_def updateProgress_def nothing_to_do_def Let_def)
next
  assume "findFullPosts (db w) (exp_postIds request) (exp_status request) = [] \<and>
    kv_put_error D (kv_writes w) (exportProgress (exp_taskId request)) = None"
  then show "ExportWorkflow_run D request w =
        (None, w\<lparr> kv := kv w @
           [(exportProgress (exp_taskId request),
             \<lparr> tp_status = Completed, tp_total = 0, tp_completed = 0, tp_current = [],
               tp_errors = [], tp_warnings = [msg_no_exportable], tp_downloadKey = None,
               tp_report = None \<rparr>)],
           kv_writes := Suc (kv_writes w) \<rparr>)"
    by (simp add: ExportWorkflow_run_def updateProgress_def nothing_to_do_def Let_def)
next
  assume "fetchZipFiles D (imp_r2Key payload) w = Inr []"
  then show "enumerate_step D payload w = Inr []" by (rule enumerate_empty_archive)
next
  show "msg_no_importable \<noteq> []" by (simp add: msg_no_importable_def)
  show "msg_no_exportable \<noteq> []" by (simp add: msg_no_exportable_def)
qed

text \<open>
  The example archive has no \<^verbatim>\<open>posts/\<close> directory, and the example store no draft.
\<close>

theorem zero_units_completed_witness:
  "enumerate_step example_deps example_import example_world_zip = Inr [] \<and>
   map (tp_status \<circ> snd) (kv (snd (ImportWorkflow_run example_deps example_import example_world_zip)))
     = [Completed] \<and>
   findFullPosts (db example_world) None (Some (js ''draft'')) = [] \<and>
   map (tp_status \<circ> snd) (kv (snd (ExportWorkflow_run example_deps example_export example_world)))
     = [Completed]"
proof -
  have fetch: "fetchZipFiles example_deps (js ''imports/t1.zip'') example_world_zip = Inr example_zip"
    by (simp add: fetchZipFiles_def example_deps_def example_world_zip_def)
  have dirs: "listDirectories example_zip (js ''posts/'') = []"
    by (simp add: listDirectories_def example_zip_def startsWith_def js_def)
  have enum: "enumerate_step example_deps example_import example_world_zip = Inr []"
    by (simp add: enumerate_step_def example_import_def fetch enumerateNativePosts_def dirs)
  have kv_ok: "kv_put_error example_deps n k = None" for n k
    by (simp add: example_deps_def)
  have none: "findFullPosts (db example_world) None (Some (js ''draft'')) = []"
    by (simp add: findFullPosts_def example_world_def js_eq_iff)
  have "kv example_world_zip = []" "kv example_world = []"
    by (simp_all add: example_world_zip_def example_world_def)
  with zero_units_completed [of example_deps example_import example_world_zip example_export]
    zero_units_completed [of example_deps example_import example_world example_export]
    enum kv_ok none
  show ?thesis by (simp add: example_export_def)
qed

end
